theory Spec2Isabelle
  imports Main
begin

section \<open>Strings\<close>

text \<open>
  A Python \<open>str\<close> is a sequence of Unicode code points; it is modelled as a list of
  natural numbers. \<open>u\<close> turns an ASCII literal into such a list.
\<close>

type_synonym ustr = "nat list"

definition u :: "string \<Rightarrow> ustr" where
  "u s = map of_char s"

text \<open>
  \<open>str.lower()\<close>. The ASCII capitals are shifted by 32. Exactly two code points
  beyond ASCII have a lower-case form that holds an ASCII code point (U+0130 gives
  \<open>i\<close> followed by U+0307, U+212A gives \<open>k\<close>); both are written out. Every other
  code point from 128 on is mapped by the Unicode tables to code points from 128 on, and
  is left as it is here: a comparison of the result with an ASCII string is not affected.
\<close>

definition lower_cp :: "nat \<Rightarrow> ustr" where
  "lower_cp c =
     (if 65 \<le> c \<and> c \<le> 90 then [c + 32]
      else if c = 304 then [105, 775]
      else if c = 8490 then [107]
      else [c])"

definition lower :: "ustr \<Rightarrow> ustr" where
  "lower s = concat (map lower_cp s)"

text \<open>\<open>str.isspace()\<close> on one code point, and \<open>str.strip()\<close> without argument.\<close>

definition isspace :: "nat \<Rightarrow> bool" where
  "isspace c \<longleftrightarrow>
     (9 \<le> c \<and> c \<le> 13) \<or> (28 \<le> c \<and> c \<le> 32) \<or> c = 133 \<or> c = 160 \<or> c = 5760
     \<or> (8192 \<le> c \<and> c \<le> 8202) \<or> c = 8232 \<or> c = 8233 \<or> c = 8239 \<or> c = 8287
     \<or> c = 12288"

definition strip :: "ustr \<Rightarrow> ustr" where
  "strip s = rev (dropWhile isspace (rev (dropWhile isspace s)))"

text \<open>\<open>str.rfind(c)\<close> for a single code point: the last index of \<open>c\<close>, or \<open>-1\<close>.\<close>

fun rfind :: "nat \<Rightarrow> ustr \<Rightarrow> int" where
  "rfind c [] = - 1"
| "rfind c (x # xs) =
     (let r = rfind c xs in if 0 \<le> r then r + 1 else if x = c then 0 else - 1)"

section \<open>Path names (\<open>os.path\<close> on Linux)\<close>

definition sep :: nat where "sep = 47"
definition extsep :: nat where "extsep = 46"

text \<open>\<open>i = p.rfind('/') + 1; return p[i:]\<close>\<close>

definition basename :: "ustr \<Rightarrow> ustr" where
  "basename p = drop (nat (rfind sep p + 1)) p"

text \<open>\<open>str.rstrip('/')\<close>\<close>

definition rstrip_sep :: "ustr \<Rightarrow> ustr" where
  "rstrip_sep s = rev (dropWhile (\<lambda>c. c = sep) (rev s))"

text \<open>
  \<open>i = p.rfind('/') + 1; head = p[:i];
  if head and head != '/' * len(head): head = head.rstrip('/'); return head\<close>
\<close>

definition dirname :: "ustr \<Rightarrow> ustr" where
  "dirname p =
     (let head = take (nat (rfind sep p + 1)) p
      in if head \<noteq> [] \<and> head \<noteq> replicate (length head) sep then rstrip_sep head else head)"

text \<open>
  \<open>os.path.splitext\<close>: the extension starts at the last dot of the last component,
  unless only dots stand between the last separator and that dot. The library's loop over
  \<open>filenameIndex\<close> returns the split at the first code point that is not a dot.
\<close>

definition splitext :: "ustr \<Rightarrow> ustr \<times> ustr" where
  "splitext p =
     (let sepIndex = rfind sep p; dotIndex = rfind extsep p
      in if dotIndex > sepIndex
            \<and> list_ex (\<lambda>c. c \<noteq> extsep)
                 (take (nat (dotIndex - (sepIndex + 1))) (drop (nat (sepIndex + 1)) p))
         then (take (nat dotIndex) p, drop (nat dotIndex) p)
         else (p, []))"

text \<open>
  \<open>os.path.join(a, b)\<close>: an absolute \<open>b\<close> replaces \<open>a\<close>; otherwise \<open>b\<close> is appended,
  after a separator unless \<open>a\<close> is empty or ends with one.
\<close>

definition join :: "ustr \<Rightarrow> ustr \<Rightarrow> ustr" where
  "join a b =
     (if b \<noteq> [] \<and> hd b = sep then b
      else if a = [] \<or> last a = sep then a @ b
      else a @ [sep] @ b)"

section \<open>The host\<close>

text \<open>
  Exceptions are values. \<open>CalledProcessError\<close> carries the return code and the captured
  standard error; \<open>OSError\<close> stands for the operating-system errors (with the name of the
  error number) and \<open>Exception\<close> for any other subclass of Python's \<open>Exception\<close>
  raised by a library.
\<close>

datatype exn = CalledProcessError int "nat list" | OSError ustr | Exception ustr

text \<open>\<open>str(e)\<close>, up to the wording of the message.\<close>

fun exn_str :: "exn \<Rightarrow> ustr" where
  "exn_str (CalledProcessError rc err) = u ''Command returned non-zero exit status''"
| "exn_str (OSError m) = m"
| "exn_str (Exception m) = m"

subsection \<open>Files and directories\<close>

text \<open>
  A resolved path is the list of its components below the root. A relative name is
  resolved against the working directory; empty components and \<open>.\<close> are dropped and
  \<open>..\<close> is resolved lexically, as \<open>os.path.normpath\<close> does: a name that passes
  through a regular file or a missing directory is not refused on the way, only by what
  is found at the resolved path. Symbolic links and access rights are not modelled.
\<close>

type_synonym path = "ustr list"

datatype node = Dir | File "nat list"

record world =
  fs :: "(path \<times> node) list"
  cwd :: path
  console :: "ustr list"

fun split_sep :: "ustr \<Rightarrow> ustr list" where
  "split_sep [] = [[]]"
| "split_sep (c # cs) =
     (if c = sep then [] # split_sep cs
      else (case split_sep cs of x # xs \<Rightarrow> (c # x) # xs | [] \<Rightarrow> [[c]]))"

fun walk :: "path \<Rightarrow> ustr list \<Rightarrow> path" where
  "walk st [] = rev st"
| "walk st (c # cs) =
     (if c = [] \<or> c = [46] then walk st cs
      else if c = [46, 46] then walk (tl st) cs
      else walk (c # st) cs)"

definition resolve :: "path \<Rightarrow> ustr \<Rightarrow> path" where
  "resolve cw p =
     (if p \<noteq> [] \<and> hd p = sep then walk [] (split_sep p) else walk (rev cw) (split_sep p))"

definition node_at :: "(path \<times> node) list \<Rightarrow> path \<Rightarrow> node option" where
  "node_at f k = (if k = [] then Some Dir else map_of f k)"

definition stat :: "world \<Rightarrow> ustr \<Rightarrow> exn + (path \<times> node)" where
  "stat w p =
     (if p = [] then Inl (OSError (u ''ENOENT''))
      else let k = resolve (cwd w) p
           in case node_at (fs w) k of
                None \<Rightarrow> Inl (OSError (u ''ENOENT''))
              | Some n \<Rightarrow> Inr (k, n))"

text \<open>\<open>os.path.exists\<close>, \<open>os.path.isdir\<close>: false on any error.\<close>

definition exists :: "world \<Rightarrow> ustr \<Rightarrow> bool" where
  "exists w p = (case stat w p of Inl e \<Rightarrow> False | Inr kn \<Rightarrow> True)"

definition isdir :: "world \<Rightarrow> ustr \<Rightarrow> bool" where
  "isdir w p = (case stat w p of Inl e \<Rightarrow> False | Inr kn \<Rightarrow> snd kn = Dir)"

definition getcwd :: "world \<Rightarrow> ustr" where
  "getcwd w = (if cwd w = [] then [sep] else concat (map (\<lambda>c. sep # c) (cwd w)))"

definition chdir :: "ustr \<Rightarrow> world \<Rightarrow> (exn + unit) \<times> world" where
  "chdir p w =
     (case stat w p of
        Inl e \<Rightarrow> (Inl e, w)
      | Inr kn \<Rightarrow>
          (case snd kn of
             Dir \<Rightarrow> (Inr (), w\<lparr>cwd := fst kn\<rparr>)
           | File b \<Rightarrow> (Inl (OSError (u ''ENOTDIR'')), w)))"

definition read_file :: "world \<Rightarrow> ustr \<Rightarrow> exn + nat list" where
  "read_file w p =
     (case stat w p of
        Inl e \<Rightarrow> Inl e
      | Inr kn \<Rightarrow> (case snd kn of Dir \<Rightarrow> Inl (OSError (u ''EISDIR'')) | File b \<Rightarrow> Inr b))"

definition put :: "path \<Rightarrow> node \<Rightarrow> (path \<times> node) list \<Rightarrow> (path \<times> node) list" where
  "put k n f = (k, n) # filter (\<lambda>e. fst e \<noteq> k) f"

text \<open>Opening a file for writing, writing the bytes and closing it.\<close>

definition write_file :: "ustr \<Rightarrow> nat list \<Rightarrow> world \<Rightarrow> (exn + unit) \<times> world" where
  "write_file p b w =
     (if p = [] then (Inl (OSError (u ''ENOENT'')), w)
      else let k = resolve (cwd w) p
           in case node_at (fs w) (butlast k) of
                None \<Rightarrow> (Inl (OSError (u ''ENOENT'')), w)
              | Some (File c) \<Rightarrow> (Inl (OSError (u ''ENOTDIR'')), w)
              | Some Dir \<Rightarrow>
                  (case node_at (fs w) k of
                     Some Dir \<Rightarrow> (Inl (OSError (u ''EISDIR'')), w)
                   | Some (File c) \<Rightarrow> (Inr (), w\<lparr>fs := put k (File b) (fs w)\<rparr>)
                   | None \<Rightarrow> (Inr (), w\<lparr>fs := put k (File b) (fs w)\<rparr>)))"

text \<open>\<open>os.remove\<close>\<close>

definition remove :: "ustr \<Rightarrow> world \<Rightarrow> (exn + unit) \<times> world" where
  "remove p w =
     (case stat w p of
        Inl e \<Rightarrow> (Inl e, w)
      | Inr kn \<Rightarrow>
          (case snd kn of
             Dir \<Rightarrow> (Inl (OSError (u ''EISDIR'')), w)
           | File b \<Rightarrow> (Inr (), w\<lparr>fs := filter (\<lambda>e. fst e \<noteq> fst kn) (fs w)\<rparr>)))"

text \<open>
  \<open>os.rename\<close>: the source must exist and the parent of the target must be a directory;
  a file does not replace a directory nor a directory a file, a directory replaces only an
  empty directory and does not move below itself. The node moves with everything below it.
\<close>

definition below :: "path \<Rightarrow> path \<Rightarrow> bool" where
  "below k d \<longleftrightarrow> take (length d) k = d"

definition move :: "path \<Rightarrow> path \<Rightarrow> (path \<times> node) list \<Rightarrow> (path \<times> node) list" where
  "move ks kd f =
     map (\<lambda>e. if below (fst e) ks then (kd @ drop (length ks) (fst e), snd e) else e)
       (filter (\<lambda>e. \<not> below (fst e) kd) f)"

definition rename :: "ustr \<Rightarrow> ustr \<Rightarrow> world \<Rightarrow> (exn + unit) \<times> world" where
  "rename src dst w =
     (case stat w src of
        Inl e \<Rightarrow> (Inl e, w)
      | Inr kn \<Rightarrow>
          (if dst = [] then (Inl (OSError (u ''ENOENT'')), w)
           else let ks = fst kn; kd = resolve (cwd w) dst
                in if node_at (fs w) (butlast kd) \<noteq> Some Dir
                   then (Inl (OSError (u ''ENOENT'')), w)
                   else if ks = kd then (Inr (), w)
                   else (case (snd kn, node_at (fs w) kd) of
                           (File b, Some Dir) \<Rightarrow> (Inl (OSError (u ''EISDIR'')), w)
                         | (File b, Some (File c)) \<Rightarrow> (Inr (), w\<lparr>fs := move ks kd (fs w)\<rparr>)
                         | (File b, None) \<Rightarrow> (Inr (), w\<lparr>fs := move ks kd (fs w)\<rparr>)
                         | (Dir, Some (File c)) \<Rightarrow> (Inl (OSError (u ''ENOTDIR'')), w)
                         | (Dir, other) \<Rightarrow>
                             (if ks = [] \<or> below kd ks then (Inl (OSError (u ''EINVAL'')), w)
                              else if list_ex (\<lambda>e. fst e \<noteq> kd \<and> below (fst e) kd) (fs w)
                              then (Inl (OSError (u ''ENOTEMPTY'')), w)
                              else (Inr (), w\<lparr>fs := move ks kd (fs w)\<rparr>)))))"

text \<open>
  \<open>os.makedirs\<close> (without \<open>exist_ok\<close>): every missing directory on the way is created; it
  is an error if the leaf exists or if a file is in the way.
\<close>

fun mkdirs :: "path list \<Rightarrow> (path \<times> node) list \<Rightarrow> exn + (path \<times> node) list" where
  "mkdirs [] f = Inr f"
| "mkdirs (k # ks) f =
     (case node_at f k of
        None \<Rightarrow> mkdirs ks (put k Dir f)
      | Some Dir \<Rightarrow> mkdirs ks f
      | Some (File b) \<Rightarrow> Inl (OSError (u ''ENOTDIR'')))"

definition makedirs :: "ustr \<Rightarrow> world \<Rightarrow> (exn + unit) \<times> world" where
  "makedirs p w =
     (if p = [] then (Inl (OSError (u ''ENOENT'')), w)
      else let k = resolve (cwd w) p
           in if node_at (fs w) k \<noteq> None then (Inl (OSError (u ''EEXIST'')), w)
              else (case mkdirs (map (\<lambda>i. take i k) [1 ..< Suc (length k)]) (fs w) of
                      Inl e \<Rightarrow> (Inl e, w)
                    | Inr f \<Rightarrow> (Inr (), w\<lparr>fs := f\<rparr>)))"

text \<open>
  \<open>os.listdir\<close>: the names of the entries of a directory, each once. The order is the
  order of the entries in the file system, which is arbitrary.
\<close>

definition listdir :: "world \<Rightarrow> ustr \<Rightarrow> exn + ustr list" where
  "listdir w p =
     (case stat w p of
        Inl e \<Rightarrow> Inl e
      | Inr kn \<Rightarrow>
          (case snd kn of
             File b \<Rightarrow> Inl (OSError (u ''ENOTDIR''))
           | Dir \<Rightarrow>
               Inr (remdups (map (\<lambda>e. last (fst e))
                      (filter (\<lambda>e. fst e \<noteq> [] \<and> butlast (fst e) = fst kn) (fs w))))))"

text \<open>\<open>print\<close>: one more line on the console.\<close>

definition print :: "ustr \<Rightarrow> world \<Rightarrow> world" where
  "print line w = w\<lparr>console := console w @ [line]\<rparr>"

text \<open>
  A file name that is not valid UTF-8 reaches the program with lone surrogates (U+D800 to
  U+DFFF) in it. A strict encoder of the standard output raises \<open>UnicodeEncodeError\<close>
  on them. \<open>print_text\<close> is \<open>print\<close> of a text that holds a file name as it is;
  \<open>print\<close> above is \<open>print\<close> of a text without surrogates: a literal, the \<open>str\<close> of an
  exception (which shows a file name escaped, as \<open>repr\<close> does), a decoded output.
\<close>

definition surrogate :: "nat \<Rightarrow> bool" where
  "surrogate c \<longleftrightarrow> 55296 \<le> c \<and> c \<le> 57343"

subsection \<open>External programs and libraries\<close>

text \<open>
  What is outside the repository is a parameter: the two external programs, the UTF-8
  decoder, the image library (PIL, whose conversion to another mode and whose JPEG encoder
  may raise), the serialisation of a PDF document, and whether the encoder of the standard
  output is strict (as under a UTF-8 locale) or escapes what it cannot encode. A process
  either could not be started, or it ran and left a return code, its standard output and
  its standard error. \<open>abiword\<close> runs in the working directory of the caller, may change
  the files, and cannot change the caller's working directory.
\<close>

datatype proc = Not_started exn | Exited int "nat list" "nat list"

record image =
  img_size :: "int \<times> int"
  img_mode :: ustr
  img_data :: "nat list"

text \<open>
  The object built by the calls on \<open>FPDF\<close>: the unit and page format given to the
  constructor (\<open>None\<close> is the default format), the number of \<open>add_page\<close> calls, the font,
  the text of the cells in the order of the \<open>cell\<close> calls, and the images with the
  position and extent given to \<open>image\<close>. Page layout is the library's and is not modelled.
\<close>

record fpdf =
  pdf_unit :: ustr
  pdf_format :: "(int \<times> int) option"
  pdf_pages :: nat
  pdf_font :: "(ustr \<times> nat) option"
  pdf_cells :: "ustr list"
  pdf_images :: "(nat list \<times> int \<times> int \<times> int \<times> int) list"

record host =
  which_abiword :: "(path \<times> node) list \<Rightarrow> proc"
  abiword :: "(path \<times> node) list \<Rightarrow> path \<Rightarrow> ustr \<Rightarrow> proc \<times> (path \<times> node) list"
  utf8_replace :: "nat list \<Rightarrow> ustr"
  image_open :: "nat list \<Rightarrow> exn + image"
  image_convert :: "image \<Rightarrow> ustr \<Rightarrow> exn + image"
  jpeg_encode :: "image \<Rightarrow> exn + nat list"
  pdf_encode :: "fpdf \<Rightarrow> nat list"
  stdout_strict :: bool

text \<open>
  \<open>subprocess.run(..., check=True, stdout=PIPE, stderr=PIPE)\<close>: a process that could
  not be started raises its error, a return code other than zero raises
  \<open>CalledProcessError\<close> with the captured standard error.
\<close>

definition subprocess_run :: "proc \<Rightarrow> exn + (int \<times> nat list \<times> nat list)" where
  "subprocess_run p =
     (case p of
        Not_started e \<Rightarrow> Inl e
      | Exited rc out err \<Rightarrow>
          if rc \<noteq> 0 then Inl (CalledProcessError rc err) else Inr (rc, out, err))"

definition FPDF :: "ustr \<Rightarrow> (int \<times> int) option \<Rightarrow> fpdf" where
  "FPDF un fmt =
     \<lparr>pdf_unit = un, pdf_format = fmt, pdf_pages = 0, pdf_font = None, pdf_cells = [],
      pdf_images = []\<rparr>"

definition add_page :: "fpdf \<Rightarrow> fpdf" where
  "add_page pdf = pdf\<lparr>pdf_pages := Suc (pdf_pages pdf)\<rparr>"

definition set_font :: "ustr \<Rightarrow> nat \<Rightarrow> fpdf \<Rightarrow> fpdf" where
  "set_font family sz pdf = pdf\<lparr>pdf_font := Some (family, sz)\<rparr>"

definition cell :: "ustr \<Rightarrow> fpdf \<Rightarrow> fpdf" where
  "cell txt pdf = pdf\<lparr>pdf_cells := pdf_cells pdf @ [txt]\<rparr>"

definition pdf_image ::
  "ustr \<Rightarrow> int \<Rightarrow> int \<Rightarrow> int \<Rightarrow> int \<Rightarrow> fpdf \<Rightarrow> world \<Rightarrow> exn + fpdf" where
  "pdf_image name x y wd ht pdf w =
     (case read_file w name of
        Inl e \<Rightarrow> Inl e
      | Inr b \<Rightarrow> Inr (pdf\<lparr>pdf_images := pdf_images pdf @ [(b, x, y, wd, ht)]\<rparr>))"

text \<open>\<open>FPDF.output(name)\<close>: with the empty name no file is written.\<close>

definition pdf_output :: "host \<Rightarrow> fpdf \<Rightarrow> ustr \<Rightarrow> world \<Rightarrow> (exn + unit) \<times> world" where
  "pdf_output h pdf name w =
     (if name = [] then (Inr (), w) else write_file name (pdf_encode h pdf) w)"

definition print_text :: "host \<Rightarrow> ustr \<Rightarrow> world \<Rightarrow> (exn + unit) \<times> world" where
  "print_text h line w =
     (if stdout_strict h \<and> list_ex surrogate line
      then (Inl (Exception (u ''UnicodeEncodeError'')), w)
      else (Inr (), print line w))"

section \<open>The program\<close>

subsection \<open>\<open>check_dependencies\<close>\<close>

text \<open>
  Only \<open>CalledProcessError\<close> is handled; any other exception leaves the function. The
  function has no \<open>return\<close> statement: its value is \<open>None\<close>, here \<open>()\<close>.
\<close>

definition check_dependencies :: "host \<Rightarrow> world \<Rightarrow> (exn + unit) \<times> world" where
  "check_dependencies h w =
     (case subprocess_run (which_abiword h (fs w)) of
        Inr r \<Rightarrow> (Inr (), print (u ''AbiWord is installed.'') w)
      | Inl (CalledProcessError rc err) \<Rightarrow>
          (Inr (),
           print (u ''Install with: sudo apt-get install abiword'')
             (print (u ''WARNING: AbiWord is not installed. DOCX conversion will not work.'') w))
      | Inl e \<Rightarrow> (Inl e, w))"

subsection \<open>\<open>convert_txt_to_pdf\<close>\<close>

text \<open>
  A file opened in text mode translates \<open>\r\n\<close> and \<open>\r\<close> to \<open>\n\<close>; iterating over it
  yields the lines, each with its \<open>\n\<close> (the last one may have none).
\<close>

fun universal_newlines :: "ustr \<Rightarrow> ustr" where
  "universal_newlines [] = []"
| "universal_newlines [c] = (if c = 13 then [10] else [c])"
| "universal_newlines (c # d # cs) =
     (if c = 13 \<and> d = 10 then 10 # universal_newlines cs
      else if c = 13 then 10 # universal_newlines (d # cs)
      else c # universal_newlines (d # cs))"

fun file_lines :: "ustr \<Rightarrow> ustr list" where
  "file_lines [] = []"
| "file_lines (c # cs) =
     (if c = 10 then [c] # file_lines cs
      else (case file_lines cs of [] \<Rightarrow> [[c]] | l # ls \<Rightarrow> (c # l) # ls))"

definition read_text :: "host \<Rightarrow> world \<Rightarrow> ustr \<Rightarrow> exn + ustr list" where
  "read_text h w name =
     (case read_file w name of
        Inl e \<Rightarrow> Inl e
      | Inr b \<Rightarrow> Inr (file_lines (universal_newlines (utf8_replace h b))))"

text \<open>The loop over the lines: one cell for each line.\<close>

fun write_lines :: "ustr list \<Rightarrow> fpdf \<Rightarrow> fpdf" where
  "write_lines [] pdf = pdf"
| "write_lines (line # ls) pdf =
     (let clean_line = filter (\<lambda>char. char < 128) line
      in write_lines ls (cell (strip clean_line) pdf))"

definition convert_txt_body :: "host \<Rightarrow> ustr \<Rightarrow> ustr \<Rightarrow> world \<Rightarrow> (exn + unit) \<times> world" where
  "convert_txt_body h input_file output_file w =
     (let pdf = set_font (u ''Arial'') 12 (add_page (FPDF (u ''mm'') None))
      in case read_text h w input_file of
           Inl e \<Rightarrow> (Inl e, w)
         | Inr ls \<Rightarrow> pdf_output h (write_lines ls pdf) output_file w)"

definition convert_txt_to_pdf :: "host \<Rightarrow> ustr \<Rightarrow> ustr \<Rightarrow> world \<Rightarrow> bool \<times> world" where
  "convert_txt_to_pdf h input_file output_file w =
     (case convert_txt_body h input_file output_file w of
        (Inr r, w') \<Rightarrow> (True, w')
      | (Inl e, w') \<Rightarrow> (False, print (u ''Error converting text file: '' @ exn_str e) w'))"

subsection \<open>\<open>convert_image_to_pdf\<close>\<close>

text \<open>
  \<open>image.save(temp_jpg, "JPEG")\<close> encodes the image and writes the file; an image that
  the encoder refuses leaves no file.
\<close>

definition convert_image_body :: "host \<Rightarrow> ustr \<Rightarrow> ustr \<Rightarrow> world \<Rightarrow> (exn + unit) \<times> world" where
  "convert_image_body h input_file output_file w =
     (case read_file w input_file of
        Inl e \<Rightarrow> (Inl e, w)
      | Inr b \<Rightarrow>
     (case image_open h b of
        Inl e \<Rightarrow> (Inl e, w)
      | Inr opened \<Rightarrow>
          (let width = fst (img_size opened);
               height = snd (img_size opened);
               temp_jpg = input_file @ u ''.temp.jpg''
           in case (if img_mode opened \<noteq> u ''RGB''
                    then image_convert h opened (u ''RGB'') else Inr opened) of
                Inl e \<Rightarrow> (Inl e, w)
              | Inr rgb \<Rightarrow>
           (case jpeg_encode h rgb of
                Inl e \<Rightarrow> (Inl e, w)
              | Inr jpg \<Rightarrow>
           (case write_file temp_jpg jpg w of
                (Inl e, w1) \<Rightarrow> (Inl e, w1)
              | (Inr r, w1) \<Rightarrow>
                  (case pdf_image temp_jpg 0 0 width height
                          (add_page (FPDF (u ''pt'') (Some (width, height)))) w1 of
                     Inl e \<Rightarrow> (Inl e, w1)
                   | Inr pdf \<Rightarrow>
                       (case pdf_output h pdf output_file w1 of
                          (Inl e, w2) \<Rightarrow> (Inl e, w2)
                        | (Inr r, w2) \<Rightarrow> remove temp_jpg w2)))))))"

definition convert_image_to_pdf :: "host \<Rightarrow> ustr \<Rightarrow> ustr \<Rightarrow> world \<Rightarrow> bool \<times> world" where
  "convert_image_to_pdf h input_file output_file w =
     (case convert_image_body h input_file output_file w of
        (Inr r, w') \<Rightarrow> (True, w')
      | (Inl e, w') \<Rightarrow> (False, print (u ''Error converting image: '' @ exn_str e) w'))"

subsection \<open>\<open>convert_docx_to_pdf\<close>\<close>

text \<open>The external program runs on the files and in the working directory of the caller.\<close>

definition run_abiword :: "host \<Rightarrow> ustr \<Rightarrow> world \<Rightarrow> (exn + (int \<times> nat list \<times> nat list)) \<times> world" where
  "run_abiword h input_file w =
     (case abiword h (fs w) (cwd w) input_file of
        (Not_started e, f) \<Rightarrow> (Inl e, w)
      | (Exited rc out err, f) \<Rightarrow> (subprocess_run (Exited rc out err), w\<lparr>fs := f\<rparr>))"

definition convert_docx_body :: "host \<Rightarrow> ustr \<Rightarrow> ustr \<Rightarrow> world \<Rightarrow> (exn + unit) \<times> world" where
  "convert_docx_body h input_file output_file w =
     (let output_dir = (if dirname output_file = [] then u ''.'' else dirname output_file);
          current_dir = getcwd w
      in case chdir output_dir w of
           (Inl e, w1) \<Rightarrow> (Inl e, w1)
         | (Inr r, w1) \<Rightarrow>
             (case run_abiword h input_file w1 of
                (Inl e, w2) \<Rightarrow> (Inl e, w2)
              | (Inr result, w2) \<Rightarrow>
                  (case chdir current_dir w2 of
                     (Inl e, w3) \<Rightarrow> (Inl e, w3)
                   | (Inr r, w3) \<Rightarrow>
                       (let base_name = basename input_file;
                            name_without_ext = fst (splitext base_name);
                            expected_pdf = join output_dir (name_without_ext @ u ''.pdf'')
                        in if exists w3 expected_pdf \<and> expected_pdf \<noteq> output_file
                           then rename expected_pdf output_file w3
                           else (Inr (), w3)))))"

definition convert_docx_to_pdf :: "host \<Rightarrow> ustr \<Rightarrow> ustr \<Rightarrow> world \<Rightarrow> bool \<times> world" where
  "convert_docx_to_pdf h input_file output_file w =
     (case convert_docx_body h input_file output_file w of
        (Inr r, w') \<Rightarrow> (True, w')
      | (Inl (CalledProcessError rc err), w') \<Rightarrow>
          (False,
           print (u ''STDERR: '' @ utf8_replace h err)
             (print (u ''Error running AbiWord: '' @ exn_str (CalledProcessError rc err)) w'))
      | (Inl e, w') \<Rightarrow> (False, print (u ''Error converting DOCX: '' @ exn_str e) w'))"

subsection \<open>\<open>convert_to_pdf\<close>\<close>

text \<open>
  The two \<open>print\<close> calls of the dispatcher show the file name and stand outside any
  \<open>try\<close>: an exception of theirs leaves the function.
\<close>

definition result_of :: "ustr \<Rightarrow> bool \<times> world \<Rightarrow> (exn + ustr option) \<times> world" where
  "result_of output_file r = (Inr (if fst r then Some output_file else None), snd r)"

definition convert_to_pdf ::
  "host \<Rightarrow> ustr \<Rightarrow> ustr \<Rightarrow> world \<Rightarrow> (exn + ustr option) \<times> world" where
  "convert_to_pdf h input_file output_dir w =
     (let file_name = basename input_file;
          name_without_ext = fst (splitext file_name);
          extension = lower (snd (splitext file_name));
          output_file = join output_dir (name_without_ext @ u ''.pdf'')
      in case print_text h
                (u ''Converting '' @ file_name @ u '' to '' @ output_file @ u ''...'') w of
           (Inl e, w0) \<Rightarrow> (Inl e, w0)
         | (Inr r, w0) \<Rightarrow>
             (if extension \<in> set [u ''.txt'', u ''.md'', u ''.csv'']
              then result_of output_file (convert_txt_to_pdf h input_file output_file w0)
              else if extension
                        \<in> set [u ''.jpg'', u ''.jpeg'', u ''.png'', u ''.bmp'', u ''.gif'']
              then result_of output_file (convert_image_to_pdf h input_file output_file w0)
              else if extension \<in> set [u ''.docx'', u ''.doc'']
              then result_of output_file (convert_docx_to_pdf h input_file output_file w0)
              else (case print_text h (u ''Unsupported file format: '' @ extension) w0 of
                      (Inl e, w1) \<Rightarrow> (Inl e, w1)
                    | (Inr r, w1) \<Rightarrow> (Inr None, w1))))"

subsection \<open>\<open>main\<close>\<close>

definition supported_extensions :: "ustr list" where
  "supported_extensions =
     [u ''.txt'', u ''.md'', u ''.csv'',
      u ''.jpg'', u ''.jpeg'', u ''.png'', u ''.bmp'', u ''.gif'',
      u ''.docx'', u ''.doc'']"

text \<open>
  The state of the loop: the two lists \<open>converted_files\<close> and \<open>failed_files\<close>, and the
  world. \<open>script\<close> is \<open>__file__\<close>. An output path is true in a condition when it is
  neither \<open>None\<close> nor the empty string. The two messages start with the check mark U+2713
  and the ballot mark U+2717 and show the file name; the loop has no \<open>try\<close>, so an
  exception of the dispatcher or of these \<open>print\<close> calls ends the loop and the run.
\<close>

type_synonym tally = "ustr list \<times> ustr list"

definition process_entry ::
  "host \<Rightarrow> ustr \<Rightarrow> ustr \<Rightarrow> ustr \<Rightarrow> ustr \<Rightarrow> tally \<Rightarrow> world \<Rightarrow> (exn + tally) \<times> world" where
  "process_entry h script current_dir output_dir file_name t w =
     (case t of (converted_files, failed_files) \<Rightarrow>
        (let file_path = join current_dir file_name
         in if isdir w file_path \<or> file_name = basename script then (Inr t, w)
            else if lower (snd (splitext file_name)) \<in> set supported_extensions
            then (case convert_to_pdf h file_path output_dir w of
                    (Inl e, w1) \<Rightarrow> (Inl e, w1)
                  | (Inr output_file, w1) \<Rightarrow>
                      (if (case output_file of None \<Rightarrow> False
                                             | Some p \<Rightarrow> p \<noteq> [] \<and> exists w1 p)
                       then (case print_text h
                                    ([10003, 32] @ u ''Successfully converted: '' @ file_name)
                                    w1 of
                               (Inl e, w2) \<Rightarrow> (Inl e, w2)
                             | (Inr r, w2) \<Rightarrow>
                                 (Inr (converted_files @ [file_name], failed_files), w2))
                       else (case print_text h
                                    ([10007, 32] @ u ''Failed to convert: '' @ file_name) w1 of
                               (Inl e, w2) \<Rightarrow> (Inl e, w2)
                             | (Inr r, w2) \<Rightarrow>
                                 (Inr (converted_files, failed_files @ [file_name]), w2))))
            else (Inr t, w)))"

fun scan ::
  "host \<Rightarrow> ustr \<Rightarrow> ustr \<Rightarrow> ustr \<Rightarrow> ustr list \<Rightarrow> tally \<Rightarrow> world \<Rightarrow> (exn + tally) \<times> world" where
  "scan h script current_dir output_dir [] t w = (Inr t, w)"
| "scan h script current_dir output_dir (file_name # names) t w =
     (case process_entry h script current_dir output_dir file_name t w of
        (Inl e, w1) \<Rightarrow> (Inl e, w1)
      | (Inr t1, w1) \<Rightarrow> scan h script current_dir output_dir names t1 w1)"

text \<open>Decimal digits of a number, for the summary.\<close>

fun str_nat :: "nat \<Rightarrow> ustr" where
  "str_nat n = (if n < 10 then [48 + n] else str_nat (n div 10) @ [48 + n mod 10])"

definition summary :: "ustr list \<Rightarrow> ustr list \<Rightarrow> world \<Rightarrow> world" where
  "summary converted_files failed_files w =
     (let w1 = print (u ''=== Conversion Summary ==='') (print [] w);
          w2 = print (u ''Total files processed: ''
                       @ str_nat (length converted_files + length failed_files)) w1;
          w3 = print (u ''Successfully converted: '' @ str_nat (length converted_files)) w2;
          w4 = print (u ''Failed conversions: '' @ str_nat (length failed_files)) w3
      in if converted_files \<noteq> []
         then print (u ''Converted files can be found in the 'pdf_output' directory'')
                (print [] w4)
         else w4)"

text \<open>
  \<open>main\<close> has no handler: an exception of the probe, of \<open>os.makedirs\<close>, of a \<open>print\<close>
  that shows a path, of \<open>os.listdir\<close> or of the loop ends the run. The result is the pair
  of the two lists.
\<close>

definition main :: "host \<Rightarrow> ustr \<Rightarrow> world \<Rightarrow> (exn + tally) \<times> world" where
  "main h script w =
     (case check_dependencies h w of
        (Inl e, w1) \<Rightarrow> (Inl e, w1)
      | (Inr r, w1) \<Rightarrow>
          (let current_dir = getcwd w1;
               output_dir = join current_dir (u ''pdf_output'')
           in case (if \<not> exists w1 output_dir
                    then (case makedirs output_dir w1 of
                            (Inl e, w2) \<Rightarrow> (Inl e, w2)
                          | (Inr r, w2) \<Rightarrow>
                              print_text h (u ''Created output directory: '' @ output_dir) w2)
                    else (Inr (), w1)) of
                (Inl e, w2) \<Rightarrow> (Inl e, w2)
              | (Inr r, w2) \<Rightarrow>
                  (case listdir w2 current_dir of
                     Inl e \<Rightarrow> (Inl e, w2)
                   | Inr names \<Rightarrow>
                       (case scan h script current_dir output_dir names ([], []) w2 of
                          (Inl e, w3) \<Rightarrow> (Inl e, w3)
                        | (Inr t, w3) \<Rightarrow> (Inr t, summary (fst t) (snd t) w3)))))"

section \<open>The dispatcher's contract\<close>

text \<open>
  The following definitions follow the words of the specification, not the code: the
  three kinds of format, equality of two strings up to the case of the ASCII letters, and
  the classification of an extension into a kind. They are compared with the code below.
\<close>

datatype format_kind = Text | Image | Document

definition to_upper :: "nat \<Rightarrow> nat" where
  "to_upper c = (if 97 \<le> c \<and> c \<le> 122 then c - 32 else c)"

definition same_ignoring_case :: "ustr \<Rightarrow> ustr \<Rightarrow> bool" where
  "same_ignoring_case a b \<longleftrightarrow> map to_upper a = map to_upper b"

definition classify_spec :: "ustr \<Rightarrow> format_kind option" where
  "classify_spec ext =
     (if list_ex (same_ignoring_case ext) [u ''.txt'', u ''.md'', u ''.csv''] then Some Text
      else if list_ex (same_ignoring_case ext)
                [u ''.jpg'', u ''.jpeg'', u ''.png'', u ''.bmp'', u ''.gif''] then Some Image
      else if list_ex (same_ignoring_case ext) [u ''.docx'', u ''.doc''] then Some Document
      else None)"

text \<open>A string of dots and small ASCII letters other than \<open>k\<close>, as the extensions are.\<close>

definition plain :: "ustr \<Rightarrow> bool" where
  "plain e \<longleftrightarrow> (\<forall>c\<in>set e. (c = 46 \<or> (97 \<le> c \<and> c \<le> 122)) \<and> c \<noteq> 107)"

section \<open>A sample host and sample directories\<close>

text \<open>
  A host on which both external programs end as \<open>p\<close> says and change no file; the
  decoder knows ASCII and the two-byte sequences that start with 195, and replaces any
  other byte by U+FFFD; an image file holds its width and its height; the JPEG encoder
  refuses a side of more than 65500 pixels; a PDF file shows the page format, the cells of
  the document, one on a line, and the image data; the standard output is strict. A sample
  directory is \<open>/work\<close> with the given entries and the directory \<open>pdf_output\<close>.
\<close>

fun sample_decode :: "nat list \<Rightarrow> ustr" where
  "sample_decode [] = []"
| "sample_decode [c] = (if c < 128 then [c] else [65533])"
| "sample_decode (c # d # cs) =
     (if c < 128 then c # sample_decode (d # cs)
      else if c = 195 \<and> 128 \<le> d \<and> d < 192 then (d + 64) # sample_decode cs
      else 65533 # sample_decode (d # cs))"

definition example_host :: "proc \<Rightarrow> host" where
  "example_host p =
     \<lparr>which_abiword = (\<lambda>f. p),
      abiword = (\<lambda>f c a. (p, f)),
      utf8_replace = sample_decode,
      image_open = (\<lambda>b. case b of
          [wd, ht] \<Rightarrow> Inr \<lparr>img_size = (int wd, int ht), img_mode = u ''RGBA'', img_data = b\<rparr>
        | other \<Rightarrow> Inl (Exception (u ''cannot identify image file''))),
      image_convert = (\<lambda>i m. Inr (i\<lparr>img_mode := m\<rparr>)),
      jpeg_encode = (\<lambda>i. if 65500 < fst (img_size i) \<or> 65500 < snd (img_size i)
                           then Inl (Exception (u ''image too large for JPEG''))
                           else Inr (img_data i)),
      pdf_encode = (\<lambda>p. (case pdf_format p of None \<Rightarrow> []
                                               | Some s \<Rightarrow> [nat (fst s), nat (snd s)])
                         @ concat (map (\<lambda>c. c @ [10]) (pdf_cells p))
                         @ concat (map fst (pdf_images p))),
      stdout_strict = True\<rparr>"

definition sample_world :: "(ustr \<times> node) list \<Rightarrow> world" where
  "sample_world entries =
     \<lparr>fs = ([u ''work''], Dir) # map (\<lambda>e. ([u ''work'', fst e], snd e)) entries
            @ [([u ''work'', u ''pdf_output''], Dir)],
      cwd = [u ''work''],
      console = []\<rparr>"

text \<open>
  \<open>notes.txt\<close> holds two spaces, \<open>hi\<close>, a space and the letter U+00E9 in UTF-8;
  \<open>wide.png\<close> is an image of 70000 by 1 pixels; \<open>old.txt\<close> is a directory.
\<close>

definition example_world :: world where
  "example_world =
     sample_world
       [(u ''notes.txt'', File (u ''  hi '' @ [195, 169])),
        (u ''notes.md'', File (u ''yo'')),
        (u ''photo.png'', File [3, 2]),
        (u ''wide.png'', File [70000, 1]),
        (u ''report.docx'', File (u ''doc'')),
        (u ''archive.zip'', File (u ''zip'')),
        (u ''old.txt'', Dir),
        (u ''pdfify.py'', File (u ''py''))]"

text \<open>
  A directory with a file whose name is not valid UTF-8: the byte 233 of the name reaches
  the program as the lone surrogate U+DCE9.
\<close>

definition surrogate_world :: world where
  "surrogate_world =
     sample_world
       [(u ''caf'' @ [56553] @ u ''.txt'', File (u ''menu'')),
        (u ''notes.md'', File (u ''yo''))]"

text \<open>A directory with a text file and a document of the same base name.\<close>

definition same_stem_world :: world where
  "same_stem_world =
     sample_world
       [(u ''a.txt'', File (u ''one'')),
        (u ''a.docx'', File (u ''doc''))]"

section \<open>Path names and files: basic facts\<close>

lemma rfind_neg: "rfind c s < 0 \<longleftrightarrow> c \<notin> set s"
  by (induction s) (auto simp: Let_def)

lemma rfind_ge: "- 1 \<le> rfind c s"
  by (induction s) (auto simp: Let_def)

lemma rfind_lt: "rfind c s < int (length s)"
  by (induction s) (auto simp: Let_def)

lemma rfind_drop: "c \<notin> set (drop (nat (rfind c s + 1)) s)"
proof (induction s)
  case Nil
  then show ?case by simp
next
  case (Cons x xs)
  show ?case
  proof (cases "0 \<le> rfind c xs")
    case True
    then have "nat (rfind c xs + 1 + 1) = Suc (nat (rfind c xs + 1))" by simp
    with True Cons show ?thesis by (simp add: Let_def)
  next
    case False
    then have "c \<notin> set xs" using rfind_neg [of c xs] by simp
    with False show ?thesis by (auto simp: Let_def)
  qed
qed

lemma rfind_absent: "c \<notin> set ys \<Longrightarrow> \<not> 0 \<le> rfind c ys"
  using rfind_neg [of c ys] by simp

lemma rfind_last: "c \<notin> set ys \<Longrightarrow> rfind c (xs @ c # ys) = int (length xs)"
  by (induction xs) (simp_all add: Let_def rfind_absent)

lemma basename_no_sep: "sep \<notin> set (basename p)"
  unfolding basename_def by (rule rfind_drop)

lemma basename_after_sep:
  assumes "sep \<notin> set n"
  shows "basename (xs @ sep # n) = n"
proof -
  have "nat (int (length xs) + 1) = Suc (length xs)" by simp
  then show ?thesis using assms by (simp add: basename_def rfind_last)
qed

lemma basename_plain: "sep \<notin> set n \<Longrightarrow> basename n = n"
  using rfind_neg [of sep n] by (simp add: basename_def)

lemma basename_join:
  assumes "sep \<notin> set n"
  shows "basename (join cd n) = n"
proof (cases "cd = [] \<or> last cd = sep")
  case False
  then have "join cd n = cd @ sep # n" using assms by (cases n) (auto simp: join_def)
  then show ?thesis using assms by (simp add: basename_after_sep)
next
  case True
  then have j: "join cd n = cd @ n" using assms by (cases n) (auto simp: join_def)
  show ?thesis
  proof (cases "cd = []")
    case True
    with j assms show ?thesis by (simp add: basename_plain)
  next
    case False
    with True have "cd = butlast cd @ [sep]" by (metis append_butlast_last_id)
    then have "cd @ n = butlast cd @ sep # n" by (metis append.assoc append_Cons append_Nil)
    with j assms show ?thesis by (simp add: basename_after_sep)
  qed
qed

lemma splitext_append: "fst (splitext p) @ snd (splitext p) = p"
  by (simp add: splitext_def Let_def)

lemma stem_no_sep: "sep \<notin> set (fst (splitext (basename p)))"
  using basename_no_sep [of p] splitext_append [of "basename p"]
  by (metis Un_iff set_append)

lemma join_stem:
  assumes "sep \<notin> set s"
  shows "join d (s @ u ''.pdf'') = (if d = [] \<or> last d = sep then d @ s @ u ''.pdf'' else d @ [sep] @ s @ u ''.pdf'')"
  using assms by (cases s) (auto simp: join_def u_def sep_def)

lemma join_not_empty: "join a (s @ u ''.pdf'') \<noteq> []"
  by (simp add: join_def u_def)

lemma last_join: "b \<noteq> [] \<Longrightarrow> last (join a b) = last b"
  by (simp add: join_def)

lemma split_sep_last:
  "c \<noteq> sep \<Longrightarrow> split_sep (xs @ [c]) \<noteq> [] \<and> last (split_sep (xs @ [c])) \<noteq> []
     \<and> last (last (split_sep (xs @ [c]))) = c"
  by (induction xs) (auto split: list.splits)

lemma walk_last:
  "cs \<noteq> [] \<Longrightarrow> last cs \<noteq> [] \<Longrightarrow> last (last cs) \<noteq> 46 \<Longrightarrow>
     walk st cs \<noteq> [] \<and> last (walk st cs) = last cs"
proof (induction cs arbitrary: st)
  case Nil
  then show ?case by simp
next
  case (Cons c cs)
  show ?case
  proof (cases "cs = []")
    case True
    with Cons.prems show ?thesis by auto
  next
    case False
    with Cons.prems have "walk s cs \<noteq> [] \<and> last (walk s cs) = last cs" for s
      using Cons.IH by simp
    with False show ?thesis by simp
  qed
qed

lemma resolve_last:
  assumes "p \<noteq> []" "last p \<noteq> sep" "last p \<noteq> 46"
  shows "resolve cw p \<noteq> [] \<and> last (last (resolve cw p)) = last p"
proof -
  have p: "p = butlast p @ [last p]" using assms(1) by simp
  from split_sep_last [OF assms(2), of "butlast p"] p
  have s: "split_sep p \<noteq> [] \<and> last (split_sep p) \<noteq> [] \<and> last (last (split_sep p)) = last p"
    by simp
  with assms(3) have "walk st (split_sep p) \<noteq> [] \<and> last (walk st (split_sep p)) = last (split_sep p)"
    for st
    using walk_last [of "split_sep p" st] by simp
  with s show ?thesis by (simp add: resolve_def)
qed

lemma output_not_temp:
  "resolve cw (join output_dir (s @ u ''.pdf'')) \<noteq> resolve cw (input_file @ u ''.temp.jpg'')"
proof -
  have a: "join output_dir (s @ u ''.pdf'') \<noteq> []" by (rule join_not_empty)
  have "last (join output_dir (s @ u ''.pdf'')) = 102"
    by (simp add: last_join u_def)
  with a have 1: "last (last (resolve cw (join output_dir (s @ u ''.pdf'')))) = 102"
    using resolve_last [of "join output_dir (s @ u ''.pdf'')" cw] by (simp add: sep_def)
  have "last (input_file @ u ''.temp.jpg'') = 103" by (simp add: u_def)
  then have 2: "last (last (resolve cw (input_file @ u ''.temp.jpg''))) = 103"
    using resolve_last [of "input_file @ u ''.temp.jpg''" cw] by (simp add: sep_def u_def)
  from 1 2 show ?thesis by auto
qed

lemma write_lines_cells:
  "pdf_cells (write_lines ls pdf) =
     pdf_cells pdf @ map (\<lambda>line. strip (filter (\<lambda>c. c < 128) line)) ls"
  by (induction ls arbitrary: pdf) (simp_all add: cell_def)

lemma node_at_put: "node_at (put k n f) k' = (if k' = k \<and> k \<noteq> [] then Some n else node_at f k')"
  by (induction f) (auto simp: node_at_def put_def)

lemma node_at_filter:
  "node_at (filter (\<lambda>e. fst e \<noteq> k) f) k' = (if k' = k \<and> k \<noteq> [] then None else node_at f k')"
  by (induction f) (auto simp: node_at_def)

lemma write_file_ok:
  assumes "write_file p b w = (Inr r, w')"
  shows "p \<noteq> [] \<and> resolve (cwd w) p \<noteq> [] \<and> w' = w\<lparr>fs := put (resolve (cwd w) p) (File b) (fs w)\<rparr>"
  using assms
  by (auto simp: write_file_def Let_def node_at_def split: if_splits option.splits node.splits)

lemma write_file_read:
  assumes "write_file p b w = (Inr r, w')"
  shows "read_file w' p = Inr b"
  using write_file_ok [OF assms]
  by (simp add: read_file_def stat_def Let_def node_at_put)

lemma remove_ok:
  assumes "remove p w = (Inr r, w')"
  shows "w' = w\<lparr>fs := filter (\<lambda>e. fst e \<noteq> resolve (cwd w) p) (fs w)\<rparr>"
  using assms
  by (auto simp: remove_def stat_def Let_def split: if_splits option.splits node.splits sum.splits)

lemma read_file_print: "read_file (print l w) p = read_file w p"
  by (simp add: read_file_def stat_def print_def)

lemma cwd_print: "cwd (print l w) = cwd w"
  by (simp add: print_def)

lemma strip_middle:
  "\<exists>pre post. s = pre @ strip s @ post \<and> list_all isspace pre \<and> list_all isspace post"
proof -
  let ?t = "dropWhile isspace s"
  have a: "s = takeWhile isspace s @ ?t" by simp
  have "?t = rev (dropWhile isspace (rev ?t)) @ rev (takeWhile isspace (rev ?t))"
    by (metis rev_append rev_rev_ident takeWhile_dropWhile_id)
  then have c: "?t = strip s @ rev (takeWhile isspace (rev ?t))" by (simp add: strip_def)
  have d: "list_all isspace (takeWhile isspace s)"
    by (simp add: list_all_iff) (meson set_takeWhileD)
  have e: "list_all isspace (rev (takeWhile isspace (rev ?t)))"
    by (simp add: list_all_iff) (meson set_takeWhileD)
  from a c have "s = takeWhile isspace s @ strip s @ rev (takeWhile isspace (rev ?t))" by metis
  with d e show ?thesis by blast
qed

lemma convert_txt_success:
  assumes "convert_txt_to_pdf h input_file output_file w = (True, w')" and "output_file \<noteq> []"
  shows "\<exists>b. read_file w input_file = Inr b \<and>
     read_file w' output_file =
       Inr (pdf_encode h (write_lines (file_lines (universal_newlines (utf8_replace h b)))
              (set_font (u ''Arial'') 12 (add_page (FPDF (u ''mm'') None)))))"
  using assms
  by (auto simp: convert_txt_to_pdf_def convert_txt_body_def read_text_def pdf_output_def Let_def
      split: sum.splits prod.splits dest: write_file_read)

lemma convert_image_success:
  assumes "convert_image_to_pdf h input_file output_file w = (True, w')"
  shows "\<exists>b img rgb jpg w1 w2 pdf. read_file w input_file = Inr b \<and> image_open h b = Inr img
     \<and> (if img_mode img \<noteq> u ''RGB'' then image_convert h img (u ''RGB'') else Inr img) = Inr rgb
     \<and> jpeg_encode h rgb = Inr jpg
     \<and> write_file (input_file @ u ''.temp.jpg'') jpg w = (Inr (), w1)
     \<and> pdf_image (input_file @ u ''.temp.jpg'') 0 0 (fst (img_size img)) (snd (img_size img))
          (add_page (FPDF (u ''pt'') (Some (fst (img_size img), snd (img_size img))))) w1 = Inr pdf
     \<and> pdf_output h pdf output_file w1 = (Inr (), w2)
     \<and> remove (input_file @ u ''.temp.jpg'') w2 = (Inr (), w')"
proof -
  obtain r where body: "convert_image_body h input_file output_file w = (Inr r, w')"
    using assms by (auto simp: convert_image_to_pdf_def split: sum.splits prod.splits)
  then obtain b where rd: "read_file w input_file = Inr b"
    by (auto simp: convert_image_body_def split: sum.splits)
  from body rd obtain img where op: "image_open h b = Inr img"
    by (auto simp: convert_image_body_def split: sum.splits)
  from body rd op obtain rgb where
    cv: "(if img_mode img \<noteq> u ''RGB'' then image_convert h img (u ''RGB'') else Inr img) = Inr rgb"
    by (cases "if img_mode img \<noteq> u ''RGB'' then image_convert h img (u ''RGB'') else Inr img")
       (auto simp: convert_image_body_def Let_def)
  from body rd op cv obtain jpg where je: "jpeg_encode h rgb = Inr jpg"
    by (cases "jpeg_encode h rgb") (auto simp: convert_image_body_def Let_def)
  from body rd op cv je show ?thesis
    by (auto simp: convert_image_body_def Let_def split: sum.splits prod.splits)
qed

lemma image_page_result:
  assumes "convert_image_to_pdf h input_file output_file w = (True, w')"
  shows "\<exists>b img rgb jpg. read_file w input_file = Inr b \<and> image_open h b = Inr img
     \<and> (if img_mode img \<noteq> u ''RGB'' then image_convert h img (u ''RGB'') else Inr img) = Inr rgb
     \<and> jpeg_encode h rgb = Inr jpg
     \<and> (output_file \<noteq> []
          \<and> resolve (cwd w) output_file \<noteq> resolve (cwd w) (input_file @ u ''.temp.jpg'') \<longrightarrow>
          read_file w' output_file =
            Inr (pdf_encode h
              \<lparr>pdf_unit = u ''pt'', pdf_format = Some (img_size img), pdf_pages = 1,
               pdf_font = None, pdf_cells = [],
               pdf_images = [(jpg, 0, 0, fst (img_size img), snd (img_size img))]\<rparr>))"
proof -
  let ?temp = "input_file @ u ''.temp.jpg''"
  from convert_image_success [OF assms] obtain b img rgb jpg w1 w2 pdf where
    rd: "read_file w input_file = Inr b" and op: "image_open h b = Inr img" and
    cv: "(if img_mode img \<noteq> u ''RGB'' then image_convert h img (u ''RGB'') else Inr img) = Inr rgb" and
    je: "jpeg_encode h rgb = Inr jpg" and
    wt: "write_file ?temp jpg w = (Inr (), w1)" and
    im: "pdf_image ?temp 0 0 (fst (img_size img)) (snd (img_size img))
          (add_page (FPDF (u ''pt'') (Some (fst (img_size img), snd (img_size img))))) w1 = Inr pdf" and
    po: "pdf_output h pdf output_file w1 = (Inr (), w2)" and
    rm: "remove ?temp w2 = (Inr (), w')"
    by (elim exE conjE)
  have pdf: "pdf = \<lparr>pdf_unit = u ''pt'', pdf_format = Some (img_size img), pdf_pages = 1,
               pdf_font = None, pdf_cells = [],
               pdf_images = [(jpg, 0, 0, fst (img_size img), snd (img_size img))]\<rparr>"
    using im write_file_read [OF wt] by (simp add: pdf_image_def add_page_def FPDF_def)
  have c1: "cwd w1 = cwd w" using write_file_ok [OF wt] by simp
  have "read_file w' output_file = Inr (pdf_encode h pdf)"
    if ne: "output_file \<noteq> []"
      and df: "resolve (cwd w) output_file \<noteq> resolve (cwd w) ?temp"
  proof -
    from po ne have wo: "write_file output_file (pdf_encode h pdf) w1 = (Inr (), w2)"
      by (simp add: pdf_output_def)
    have c2: "cwd w2 = cwd w" and o2: "resolve (cwd w) output_file \<noteq> []"
      and f2: "fs w2 = put (resolve (cwd w) output_file) (File (pdf_encode h pdf)) (fs w1)"
      using write_file_ok [OF wo] c1 by simp_all
    have w': "w' = w2\<lparr>fs := filter (\<lambda>e. fst e \<noteq> resolve (cwd w) ?temp) (fs w2)\<rparr>"
      using remove_ok [OF rm] c2 by simp
    show ?thesis
      using ne df o2
      by (simp add: w' c2 f2 read_file_def stat_def Let_def node_at_filter node_at_put)
  qed
  with rd op cv je pdf show ?thesis by blast
qed

lemma convert_to_pdf_Some:
  assumes "convert_to_pdf h input_file output_dir w = (Inr (Some p), w')"
  shows "p = join output_dir (fst (splitext (basename input_file)) @ u ''.pdf'')
     \<and> (\<exists>l. (lower (snd (splitext (basename input_file))) \<in> set [u ''.txt'', u ''.md'', u ''.csv'']
               \<longrightarrow> convert_txt_to_pdf h input_file p (print l w) = (True, w'))
            \<and> (lower (snd (splitext (basename input_file)))
                  \<in> set [u ''.jpg'', u ''.jpeg'', u ''.png'', u ''.bmp'', u ''.gif'']
               \<longrightarrow> convert_image_to_pdf h input_file p (print l w) = (True, w')))"
proof -
  let ?out = "join output_dir (fst (splitext (basename input_file)) @ u ''.pdf'')"
  let ?l = "u ''Converting '' @ basename input_file @ u '' to '' @ ?out @ u ''...''"
  let ?ext = "lower (snd (splitext (basename input_file)))"
  from assms have pt: "print_text h ?l w = (Inr (), print ?l w)"
    by (auto simp: convert_to_pdf_def Let_def print_text_def split: if_splits)
  have r: "result_of ?out x = (Inr (Some p), w') \<Longrightarrow> p = ?out \<and> x = (True, w')" for x
    by (cases x) (auto simp: result_of_def split: if_splits)
  have p: "p = ?out"
    using assms pt r
    by (auto simp: convert_to_pdf_def Let_def print_text_def split: if_splits prod.splits sum.splits)
  have t: "convert_txt_to_pdf h input_file p (print ?l w) = (True, w')"
    if "?ext \<in> set [u ''.txt'', u ''.md'', u ''.csv'']"
    using assms pt that r [of "convert_txt_to_pdf h input_file ?out (print ?l w)"] p
    by (simp add: convert_to_pdf_def Let_def)
  have i: "convert_image_to_pdf h input_file p (print ?l w) = (True, w')"
    if "?ext \<in> set [u ''.jpg'', u ''.jpeg'', u ''.png'', u ''.bmp'', u ''.gif'']"
  proof -
    from that have "?ext \<notin> set [u ''.txt'', u ''.md'', u ''.csv'']"
      by (auto simp: u_def)
    with assms pt that r [of "convert_image_to_pdf h input_file ?out (print ?l w)"] p
    show ?thesis by (simp add: convert_to_pdf_def Let_def)
  qed
  from p t i show ?thesis by blast
qed

lemmas eval_defs = convert_txt_to_pdf_def convert_txt_body_def read_text_def read_file_def stat_def
     resolve_def u_def sep_def node_at_def example_world_def sample_world_def surrogate_world_def
     same_stem_world_def example_host_def pdf_output_def write_file_def Let_def
     put_def FPDF_def add_page_def set_font_def cell_def strip_def isspace_def
     check_dependencies_def subprocess_run_def print_def print_text_def surrogate_def

lemmas more_defs = eval_defs main_def process_entry_def convert_to_pdf_def result_of_def
  convert_image_to_pdf_def convert_image_body_def convert_docx_to_pdf_def convert_docx_body_def
  run_abiword_def chdir_def getcwd_def exists_def isdir_def listdir_def makedirs_def remove_def rename_def
  pdf_image_def summary_def supported_extensions_def basename_def splitext_def dirname_def join_def
  lower_def lower_cp_def extsep_def rstrip_sep_def

section \<open>The text converter\<close>

text \<open>
  C3, as the claim states it, fails: the cell of a line is stripped of its leading and
  trailing white space after the code points from 128 on are removed. The text of
  \<open>notes.txt\<close> is two spaces, \<open>hi\<close>, a space and U+00E9; without U+00E9 it is two
  spaces, \<open>hi\<close> and a space, and the document written has the one cell \<open>hi\<close>.
\<close>

theorem txt_strip_counterexample:
  "fst (convert_txt_to_pdf (example_host (Exited 0 [] [])) (u ''/work/notes.txt'')
          (u ''/work/pdf_output/notes.pdf'') example_world)
   \<and> read_file (snd (convert_txt_to_pdf (example_host (Exited 0 [] [])) (u ''/work/notes.txt'')
          (u ''/work/pdf_output/notes.pdf'') example_world)) (u ''/work/pdf_output/notes.pdf'')
       = Inr (pdf_encode (example_host (Exited 0 [] []))
           \<lparr>pdf_unit = u ''mm'', pdf_format = None, pdf_pages = 1,
            pdf_font = Some (u ''Arial'', 12), pdf_cells = [u ''hi''], pdf_images = []\<rparr>)
   \<and> read_file example_world (u ''/work/notes.txt'') = Inr (u ''  hi '' @ [195, 169])
   \<and> utf8_replace (example_host (Exited 0 [] [])) (u ''  hi '' @ [195, 169]) = u ''  hi '' @ [233]
   \<and> map (filter (\<lambda>c. c < 128)) (file_lines (universal_newlines (u ''  hi '' @ [233])))
       = [u ''  hi '']
   \<and> [u ''hi''] \<noteq> [u ''  hi '']"
  by (simp add: eval_defs)

text \<open>
  C3, amended: for every input text file that can be read, whatever it holds, the document
  the text converter builds has as its cells, line by line, the text of the input without
  the code points from 128 on and then without leading and trailing white space (the line
  terminator included); what \<open>strip\<close> removes is white space at the two ends only. When
  the document can be written to the output path the converter returns true and the file
  at the output path holds that document; the converter returns true exactly when the
  document is written or the output name is empty.
\<close>

theorem txt_cells_written:
  assumes "read_file w input_file = Inr b"
  shows "\<exists>doc. pdf_cells doc = map (\<lambda>line. strip (filter (\<lambda>c. c < 128) line))
                          (file_lines (universal_newlines (utf8_replace h b)))
     \<and> (\<forall>line. \<exists>pre post. filter (\<lambda>c. c < 128) line
                               = pre @ strip (filter (\<lambda>c. c < 128) line) @ post
                             \<and> list_all isspace pre \<and> list_all isspace post)
     \<and> (\<forall>w'. write_file output_file (pdf_encode h doc) w = (Inr (), w') \<longrightarrow>
            convert_txt_to_pdf h input_file output_file w = (True, w')
            \<and> read_file w' output_file = Inr (pdf_encode h doc))
     \<and> (fst (convert_txt_to_pdf h input_file output_file w) \<longleftrightarrow>
          output_file = [] \<or> (\<exists>r. fst (write_file output_file (pdf_encode h doc) w) = Inr r))"
proof -
  let ?ls = "file_lines (universal_newlines (utf8_replace h b))"
  let ?doc = "write_lines ?ls (set_font (u ''Arial'') 12 (add_page (FPDF (u ''mm'') None)))"
  have body: "convert_txt_body h input_file output_file w = pdf_output h ?doc output_file w"
    using assms by (simp add: convert_txt_body_def read_text_def Let_def)
  have c: "pdf_cells ?doc = map (\<lambda>line. strip (filter (\<lambda>c. c < 128) line)) ?ls"
    by (simp add: write_lines_cells set_font_def add_page_def FPDF_def)
  have m: "\<forall>line. \<exists>pre post. filter (\<lambda>c. c < 128) line
                               = pre @ strip (filter (\<lambda>c. c < 128) line) @ post
                             \<and> list_all isspace pre \<and> list_all isspace post"
    by (rule allI) (rule strip_middle)
  have t: "\<forall>w'. write_file output_file (pdf_encode h ?doc) w = (Inr (), w') \<longrightarrow>
            convert_txt_to_pdf h input_file output_file w = (True, w')
            \<and> read_file w' output_file = Inr (pdf_encode h ?doc)"
  proof (intro allI impI)
    fix w'
    assume wr: "write_file output_file (pdf_encode h ?doc) w = (Inr (), w')"
    from write_file_ok [OF wr] have "output_file \<noteq> []" by simp
    with wr have "convert_txt_to_pdf h input_file output_file w = (True, w')"
      by (simp add: convert_txt_to_pdf_def body pdf_output_def)
    with write_file_read [OF wr]
    show "convert_txt_to_pdf h input_file output_file w = (True, w')
            \<and> read_file w' output_file = Inr (pdf_encode h ?doc)"
      by simp
  qed
  have i: "fst (convert_txt_to_pdf h input_file output_file w) \<longleftrightarrow>
          output_file = [] \<or> (\<exists>r. fst (write_file output_file (pdf_encode h ?doc) w) = Inr r)"
    by (cases "write_file output_file (pdf_encode h ?doc) w")
       (auto simp: convert_txt_to_pdf_def body pdf_output_def split: sum.splits)
  show ?thesis
    by (rule exI [of _ ?doc], intro conjI, rule c, rule m, rule t, rule i)
qed

theorem txt_cells_written_witness:
  "\<exists>doc. pdf_cells doc = [u ''hi'']
     \<and> convert_txt_to_pdf (example_host (Exited 0 [] [])) (u ''/work/notes.txt'')
          (u ''/work/pdf_output/notes.pdf'') example_world
        = (True, example_world\<lparr>fs := put [u ''work'', u ''pdf_output'', u ''notes.pdf'']
                    (File (pdf_encode (example_host (Exited 0 [] [])) doc)) (fs example_world)\<rparr>)
     \<and> read_file (example_world\<lparr>fs := put [u ''work'', u ''pdf_output'', u ''notes.pdf'']
                    (File (pdf_encode (example_host (Exited 0 [] [])) doc)) (fs example_world)\<rparr>)
          (u ''/work/pdf_output/notes.pdf'')
        = Inr (pdf_encode (example_host (Exited 0 [] [])) doc)"
proof -
  let ?H = "example_host (Exited 0 [] [])"
  have rd: "read_file example_world (u ''/work/notes.txt'') = Inr (u ''  hi '' @ [195, 169])"
    by (simp add: eval_defs)
  have ls: "map (\<lambda>line. strip (filter (\<lambda>c. c < 128) line))
              (file_lines (universal_newlines (utf8_replace ?H (u ''  hi '' @ [195, 169]))))
            = [u ''hi'']"
    by (simp add: eval_defs)
  have wr: "write_file (u ''/work/pdf_output/notes.pdf'') x example_world
            = (Inr (), example_world\<lparr>fs := put [u ''work'', u ''pdf_output'', u ''notes.pdf'']
                    (File x) (fs example_world)\<rparr>)" for x
    by (simp add: write_file_def resolve_def u_def sep_def node_at_def example_world_def
          sample_world_def Let_def)
  from txt_cells_written [OF rd, of ?H "u ''/work/pdf_output/notes.pdf''"] obtain doc where
    1: "pdf_cells doc = map (\<lambda>line. strip (filter (\<lambda>c. c < 128) line))
              (file_lines (universal_newlines (utf8_replace ?H (u ''  hi '' @ [195, 169]))))" and
    2: "\<forall>w'. write_file (u ''/work/pdf_output/notes.pdf'') (pdf_encode ?H doc) example_world
                = (Inr (), w') \<longrightarrow>
            convert_txt_to_pdf ?H (u ''/work/notes.txt'') (u ''/work/pdf_output/notes.pdf'')
              example_world = (True, w')
            \<and> read_file w' (u ''/work/pdf_output/notes.pdf'') = Inr (pdf_encode ?H doc)"
    by (elim exE conjE)
  from 1 ls have c: "pdf_cells doc = [u ''hi'']" by simp
  from 2 [rule_format, OF wr] c show ?thesis
    by (intro exI [of _ doc] conjI) simp_all
qed

section \<open>The capability probe\<close>

text \<open>
  C4 does not hold of the code: only \<open>CalledProcessError\<close> is handled, so when the lookup
  command cannot be started its exception leaves the probe, and \<open>main\<close>, which calls the
  probe outside any \<open>try\<close>, ends before it has looked at a single file.
\<close>

theorem probe_raises_counterexample:
  "fst (check_dependencies (example_host (Not_started (OSError (u ''ENOENT'')))) example_world)
     = Inl (OSError (u ''ENOENT''))
   \<and> main (example_host (Not_started (OSError (u ''ENOENT'')))) (u ''/work/pdfify.py'')
       example_world
     = (Inl (OSError (u ''ENOENT'')), example_world)"
  by (simp add: main_def check_dependencies_def subprocess_run_def example_host_def)

section \<open>The image converter\<close>




section \<open>Errors at the boundary of a converter\<close>

text \<open>
  C9: each of the three converters returns a boolean and nothing else; it returns true
  exactly when its body ends without an exception, and an exception of the body (a file
  that cannot be read or written, an image that cannot be opened, an external process that
  cannot be started or fails) gives false and at least one more line on the console.
\<close>

theorem converters_catch_errors:
  "(fst (convert_txt_to_pdf h input_file output_file w)
      \<longleftrightarrow> (\<exists>r. fst (convert_txt_body h input_file output_file w) = Inr r))
   \<and> (fst (convert_image_to_pdf h input_file output_file w)
      \<longleftrightarrow> (\<exists>r. fst (convert_image_body h input_file output_file w) = Inr r))
   \<and> (fst (convert_docx_to_pdf h input_file output_file w)
      \<longleftrightarrow> (\<exists>r. fst (convert_docx_body h input_file output_file w) = Inr r))
   \<and> (fst (convert_txt_body h input_file output_file w) = Inl e1 \<longrightarrow>
        convert_txt_to_pdf h input_file output_file w =
          (False, print (u ''Error converting text file: '' @ exn_str e1)
                    (snd (convert_txt_body h input_file output_file w))))
   \<and> (fst (convert_image_body h input_file output_file w) = Inl e2 \<longrightarrow>
        convert_image_to_pdf h input_file output_file w =
          (False, print (u ''Error converting image: '' @ exn_str e2)
                    (snd (convert_image_body h input_file output_file w))))
   \<and> (fst (convert_docx_body h input_file output_file w) = Inl e3 \<longrightarrow>
        (\<exists>msgs. msgs \<noteq> [] \<and>
           convert_docx_to_pdf h input_file output_file w =
             (False, (snd (convert_docx_body h input_file output_file w))
                       \<lparr>console := console (snd (convert_docx_body h input_file output_file w))
                                     @ msgs\<rparr>)))"
proof (intro conjI)
  show "fst (convert_txt_to_pdf h input_file output_file w)
      \<longleftrightarrow> (\<exists>r. fst (convert_txt_body h input_file output_file w) = Inr r)"
    by (cases "convert_txt_body h input_file output_file w")
       (auto simp: convert_txt_to_pdf_def split: sum.splits)
  show "fst (convert_image_to_pdf h input_file output_file w)
      \<longleftrightarrow> (\<exists>r. fst (convert_image_body h input_file output_file w) = Inr r)"
    by (cases "convert_image_body h input_file output_file w")
       (auto simp: convert_image_to_pdf_def split: sum.splits)
  show "fst (convert_docx_to_pdf h input_file output_file w)
      \<longleftrightarrow> (\<exists>r. fst (convert_docx_body h input_file output_file w) = Inr r)"
    by (cases "convert_docx_body h input_file output_file w")
       (auto simp: convert_docx_to_pdf_def split: sum.splits exn.splits)
  show "fst (convert_txt_body h input_file output_file w) = Inl e1 \<longrightarrow>
        convert_txt_to_pdf h input_file output_file w =
          (False, print (u ''Error converting text file: '' @ exn_str e1)
                    (snd (convert_txt_body h input_file output_file w)))"
    by (cases "convert_txt_body h input_file output_file w")
       (auto simp: convert_txt_to_pdf_def split: sum.splits)
  show "fst (convert_image_body h input_file output_file w) = Inl e2 \<longrightarrow>
        convert_image_to_pdf h input_file output_file w =
          (False, print (u ''Error converting image: '' @ exn_str e2)
                    (snd (convert_image_body h input_file output_file w)))"
    by (cases "convert_image_body h input_file output_file w")
       (auto simp: convert_image_to_pdf_def split: sum.splits)
  show "fst (convert_docx_body h input_file output_file w) = Inl e3 \<longrightarrow>
        (\<exists>msgs. msgs \<noteq> [] \<and>
           convert_docx_to_pdf h input_file output_file w =
             (False, (snd (convert_docx_body h input_file output_file w))
                       \<lparr>console := console (snd (convert_docx_body h input_file output_file w))
                                     @ msgs\<rparr>))"
  proof (cases "convert_docx_body h input_file output_file w")
    case (Pair r w1)
    show ?thesis
    proof (cases e3)
      case (CalledProcessError rc err)
      have "convert_docx_body h input_file output_file w = (Inl e3, w1) \<Longrightarrow>
            convert_docx_to_pdf h input_file output_file w =
             (False, w1\<lparr>console := console w1 @
                [u ''Error running AbiWord: '' @ exn_str (CalledProcessError rc err),
                 u ''STDERR: '' @ utf8_replace h err]\<rparr>)"
        by (simp add: convert_docx_to_pdf_def CalledProcessError print_def)
      with Pair show ?thesis by auto
    next
      case (OSError m)
      have "convert_docx_body h input_file output_file w = (Inl e3, w1) \<Longrightarrow>
            convert_docx_to_pdf h input_file output_file w =
             (False, w1\<lparr>console := console w1 @ [u ''Error converting DOCX: '' @ exn_str e3]\<rparr>)"
        by (simp add: convert_docx_to_pdf_def OSError print_def)
      with Pair show ?thesis by auto
    next
      case (Exception m)
      have "convert_docx_body h input_file output_file w = (Inl e3, w1) \<Longrightarrow>
            convert_docx_to_pdf h input_file output_file w =
             (False, w1\<lparr>console := console w1 @ [u ''Error converting DOCX: '' @ exn_str e3]\<rparr>)"
        by (simp add: convert_docx_to_pdf_def Exception print_def)
      with Pair show ?thesis by auto
    qed
  qed
qed

theorem converters_catch_errors_witness:
  "convert_txt_to_pdf (example_host (Exited 0 [] [])) (u ''/work/missing'') (u ''/nowhere/x.pdf'')
      example_world
     = (False, print (u ''Error converting text file: '' @ exn_str (OSError (u ''ENOENT'')))
                 example_world)
   \<and> convert_image_to_pdf (example_host (Exited 0 [] [])) (u ''/work/missing'')
        (u ''/nowhere/x.pdf'') example_world
     = (False, print (u ''Error converting image: '' @ exn_str (OSError (u ''ENOENT'')))
                 example_world)
   \<and> \<not> fst (convert_docx_to_pdf (example_host (Exited 0 [] [])) (u ''/work/missing'')
              (u ''/nowhere/x.pdf'') example_world)"
proof -
  let ?H = "example_host (Exited 0 [] [])"
  have b1: "convert_txt_body ?H (u ''/work/missing'') (u ''/nowhere/x.pdf'') example_world
            = (Inl (OSError (u ''ENOENT'')), example_world)"
    by (simp add: more_defs)
  have b2: "convert_image_body ?H (u ''/work/missing'') (u ''/nowhere/x.pdf'') example_world
            = (Inl (OSError (u ''ENOENT'')), example_world)"
    by (simp add: more_defs)
  have b3: "convert_docx_body ?H (u ''/work/missing'') (u ''/nowhere/x.pdf'') example_world
            = (Inl (OSError (u ''ENOENT'')), example_world)"
    by (simp add: more_defs)
  show ?thesis
    using converters_catch_errors [of ?H "u ''/work/missing''" "u ''/nowhere/x.pdf''" example_world
        "OSError (u ''ENOENT'')" "OSError (u ''ENOENT'')" "OSError (u ''ENOENT'')"]
    by (simp add: b1 b2 b3)
qed

section \<open>The document converter\<close>

text \<open>
  C1, as the claim states it, fails: the external process ends with return code zero and
  writes no file; the expected file does not exist afterwards and the converter returns
  true.
\<close>

theorem docx_missing_output_counterexample:
  "fst (convert_docx_to_pdf (example_host (Exited 0 [] [])) (u ''/work/report.docx'')
          (u ''/work/pdf_output/report.pdf'') example_world)
   \<and> \<not> exists (snd (convert_docx_to_pdf (example_host (Exited 0 [] [])) (u ''/work/report.docx'')
                      (u ''/work/pdf_output/report.pdf'') example_world))
          (join (u ''/work/pdf_output'')
             (fst (splitext (basename (u ''/work/report.docx''))) @ u ''.pdf''))"
  by (simp add: more_defs)

text \<open>
  C1, amended: once the external process has run, a return code other than zero makes the
  converter return false, and the captured standard error is printed; with return code
  zero, the working directory restored and no file at the expected place, the converter
  renames nothing and returns true.
\<close>

theorem docx_exit_status:
  assumes "chdir (if dirname output_file = [] then u ''.'' else dirname output_file) w = (Inr (), w1)"
      and "abiword h (fs w1) (cwd w1) input_file = (Exited rc out err, f)"
  shows "(rc \<noteq> 0 \<longrightarrow>
            convert_docx_to_pdf h input_file output_file w =
              (False,
               print (u ''STDERR: '' @ utf8_replace h err)
                 (print (u ''Error running AbiWord: '' @ exn_str (CalledProcessError rc err))
                    (w1\<lparr>fs := f\<rparr>))))
       \<and> (rc = 0 \<and> chdir (getcwd w) (w1\<lparr>fs := f\<rparr>) = (Inr (), w3)
            \<and> \<not> exists w3 (join (if dirname output_file = [] then u ''.'' else dirname output_file)
                              (fst (splitext (basename input_file)) @ u ''.pdf'')) \<longrightarrow>
            convert_docx_to_pdf h input_file output_file w = (True, w3))"
  using assms
  by (auto simp: convert_docx_to_pdf_def convert_docx_body_def run_abiword_def subprocess_run_def
      Let_def)

theorem docx_exit_status_witness:
  "convert_docx_to_pdf (example_host (Exited 1 [] (u ''boom''))) (u ''/work/report.docx'')
      (u ''/work/pdf_output/report.pdf'') example_world
     = (False,
        print (u ''STDERR: '' @ u ''boom'')
          (print (u ''Error running AbiWord: '' @ exn_str (CalledProcessError 1 (u ''boom'')))
             (example_world\<lparr>cwd := [u ''work'', u ''pdf_output'']\<rparr>)))
   \<and> convert_docx_to_pdf (example_host (Exited 0 [] [])) (u ''/work/report.docx'')
      (u ''/work/pdf_output/report.pdf'') example_world
     = (True, example_world)"
proof -
  let ?W1 = "example_world\<lparr>cwd := [u ''work'', u ''pdf_output'']\<rparr>"
  let ?I = "u ''/work/report.docx''"
  let ?O = "u ''/work/pdf_output/report.pdf''"
  have c: "chdir (if dirname ?O = [] then u ''.'' else dirname ?O) example_world = (Inr (), ?W1)"
    by (simp add: more_defs)
  have a1: "abiword (example_host (Exited 1 [] (u ''boom''))) (fs ?W1) (cwd ?W1) ?I
            = (Exited 1 [] (u ''boom''), fs example_world)"
    by (simp add: example_host_def)
  have a0: "abiword (example_host (Exited 0 [] [])) (fs ?W1) (cwd ?W1) ?I
            = (Exited 0 [] [], fs example_world)"
    by (simp add: example_host_def)
  have bk: "chdir (getcwd example_world) (?W1\<lparr>fs := fs example_world\<rparr>) = (Inr (), example_world)"
    by (simp add: more_defs)
  have missing: "\<not> exists example_world
       (join (if dirname ?O = [] then u ''.'' else dirname ?O)
          (fst (splitext (basename ?I)) @ u ''.pdf''))"
    by (simp add: more_defs)
  have r1: "convert_docx_to_pdf (example_host (Exited 1 [] (u ''boom''))) ?I ?O example_world
     = (False,
        print (u ''STDERR: '' @ utf8_replace (example_host (Exited 1 [] (u ''boom''))) (u ''boom''))
          (print (u ''Error running AbiWord: '' @ exn_str (CalledProcessError 1 (u ''boom'')))
             (?W1\<lparr>fs := fs example_world\<rparr>)))"
    using docx_exit_status [OF c a1] by simp
  have r0: "convert_docx_to_pdf (example_host (Exited 0 [] [])) ?I ?O example_world
              = (True, example_world)"
    using docx_exit_status [OF c a0, of example_world] bk missing by simp
  have u1: "utf8_replace (example_host (Exited 1 [] (u ''boom''))) (u ''boom'') = u ''boom''"
    by (simp add: example_host_def u_def)
  have w1: "?W1\<lparr>fs := fs example_world\<rparr> = ?W1" by simp
  from r1 r0 show ?thesis by (simp only: u1 w1 simp_thms)
qed

text \<open>
  C2 does not hold of the code: \<open>os.chdir(current_dir)\<close> stands after the call of the
  external program inside the \<open>try\<close> block, so an exception of that call skips it. Here
  the program ends with return code 1; the call started in \<open>/work\<close> and ends in
  \<open>/work/pdf_output\<close>.
\<close>

theorem docx_cwd_not_restored:
  "cwd example_world = [u ''work'']
   \<and> cwd (snd (convert_docx_to_pdf (example_host (Exited 1 [] (u ''boom'')))
                 (u ''/work/report.docx'') (u ''/work/pdf_output/report.pdf'') example_world))
       = [u ''work'', u ''pdf_output'']
   \<and> \<not> fst (convert_docx_to_pdf (example_host (Exited 1 [] (u ''boom'')))
                 (u ''/work/report.docx'') (u ''/work/pdf_output/report.pdf'') example_world)"
  by (simp add: more_defs)

section \<open>The dispatcher\<close>

text \<open>
  C6 does not hold of the code: the dispatcher prints the file name before it classifies
  the extension, outside any \<open>try\<close>. The name of the file below has a lone surrogate and
  the standard output is strict: \<open>print\<close> raises \<open>UnicodeEncodeError\<close> and the dispatcher
  returns neither a path nor \<open>None\<close>, although the extension is \<open>.txt\<close>.
\<close>

theorem dispatcher_raises_on_surrogate_name:
  "list_ex surrogate (u ''caf'' @ [56553] @ u ''.txt'')
   \<and> stdout_strict (example_host (Exited 0 [] []))
   \<and> lower (snd (splitext (basename (u ''/work/caf'' @ [56553] @ u ''.txt'')))) = u ''.txt''
   \<and> convert_to_pdf (example_host (Exited 0 [] [])) (u ''/work/caf'' @ [56553] @ u ''.txt'')
        (u ''/work/pdf_output'') surrogate_world
       = (Inl (Exception (u ''UnicodeEncodeError'')), surrogate_world)"
  by (simp add: more_defs)

text \<open>
  When the \<open>print\<close> of the dispatcher does not raise, the dispatcher agrees with the
  classification written from the words of the specification: it returns the output path
  when the converter of the kind of the extension returns true and \<open>None\<close> otherwise.
\<close>

lemma lower_Cons: "lower (c # cs) = lower_cp c @ lower cs"
  by (simp add: lower_def)

lemma lower_plain:
  "plain e \<Longrightarrow> lower x = e \<longleftrightarrow> same_ignoring_case x e"
proof (induction x arbitrary: e)
  case Nil
  then show ?case by (auto simp: lower_def same_ignoring_case_def)
next
  case (Cons c cs)
  show ?case
  proof (cases e)
    case Nil
    then show ?thesis by (simp add: lower_Cons lower_cp_def same_ignoring_case_def)
  next
    case (Cons d ds)
    with Cons.prems have pd: "(d = 46 \<or> (97 \<le> d \<and> d \<le> 122)) \<and> d \<noteq> 107" and pds: "plain ds"
      by (simp_all add: plain_def)
    have n775: "775 \<notin> set ds" using pds by (auto simp: plain_def)
    have ih: "lower cs = ds \<longleftrightarrow> map to_upper cs = map to_upper ds"
      using Cons.IH [OF pds] by (simp add: same_ignoring_case_def)
    have hd: "(lower_cp c = [d]) \<longleftrightarrow> (to_upper c = to_upper d)"
      using pd by (auto simp: lower_cp_def to_upper_def)
    have one: "lower_cp c @ lower cs = d # ds \<longleftrightarrow> lower_cp c = [d] \<and> lower cs = ds"
      using n775 by (auto simp: lower_cp_def)
    show ?thesis
      by (simp add: Cons lower_Cons one hd ih same_ignoring_case_def)
  qed
qed

lemma plain_exts:
  "plain (u ''.txt'')" "plain (u ''.md'')" "plain (u ''.csv'')" "plain (u ''.jpg'')"
  "plain (u ''.jpeg'')" "plain (u ''.png'')" "plain (u ''.bmp'')" "plain (u ''.gif'')"
  "plain (u ''.docx'')" "plain (u ''.doc'')"
  by (simp_all add: plain_def u_def)

lemma lower_classify:
  "classify_spec ext =
     (if lower ext \<in> set [u ''.txt'', u ''.md'', u ''.csv''] then Some Text
      else if lower ext \<in> set [u ''.jpg'', u ''.jpeg'', u ''.png'', u ''.bmp'', u ''.gif'']
      then Some Image
      else if lower ext \<in> set [u ''.docx'', u ''.doc''] then Some Document
      else None)"
  by (simp add: classify_spec_def lower_plain plain_exts)

lemma dispatch_when_printed:
  assumes "print_text h (u ''Converting '' @ basename input_file @ u '' to ''
                          @ join output_dir (fst (splitext (basename input_file)) @ u ''.pdf'')
                          @ u ''...'') w = (Inr (), w0)"
  shows "fst (convert_to_pdf h input_file output_dir w) =
     (let out = join output_dir (fst (splitext (basename input_file)) @ u ''.pdf'')
      in case classify_spec (snd (splitext (basename input_file))) of
           None \<Rightarrow>
             (case fst (print_text h (u ''Unsupported file format: ''
                          @ lower (snd (splitext (basename input_file)))) w0) of
                Inl e \<Rightarrow> Inl e | Inr r \<Rightarrow> Inr None)
         | Some Text \<Rightarrow>
             Inr (if fst (convert_txt_to_pdf h input_file out w0) then Some out else None)
         | Some Image \<Rightarrow>
             Inr (if fst (convert_image_to_pdf h input_file out w0) then Some out else None)
         | Some Document \<Rightarrow>
             Inr (if fst (convert_docx_to_pdf h input_file out w0) then Some out else None))"
  using assms
  unfolding lower_classify convert_to_pdf_def Let_def result_of_def
  by (auto split: prod.splits sum.splits)

section \<open>The batch driver\<close>

text \<open>
  C8 does not hold of the code: the same file is not a directory, is not the script and has
  a supported extension; the exception of the dispatcher leaves the body of the loop, and
  the file is added to neither list.
\<close>

theorem entry_in_neither_list:
  "\<not> isdir surrogate_world (join (u ''/work'') (u ''caf'' @ [56553] @ u ''.txt''))
   \<and> u ''caf'' @ [56553] @ u ''.txt'' \<noteq> basename (u ''/work/pdfify.py'')
   \<and> lower (snd (splitext (u ''caf'' @ [56553] @ u ''.txt''))) \<in> set supported_extensions
   \<and> process_entry (example_host (Exited 0 [] [])) (u ''/work/pdfify.py'') (u ''/work'')
        (u ''/work/pdf_output'') (u ''caf'' @ [56553] @ u ''.txt'') ([], []) surrogate_world
       = (Inl (Exception (u ''UnicodeEncodeError'')), surrogate_world)"
  by (simp add: more_defs)

text \<open>
  C5 does not hold of the code: in the directory with that file the run ends with the
  exception at the first entry; no entry gets a result, \<open>notes.md\<close> included, and no
  summary is printed.
\<close>

theorem main_aborts_on_surrogate_name:
  "listdir surrogate_world (u ''/work'')
     = Inr [u ''caf'' @ [56553] @ u ''.txt'', u ''notes.md'', u ''pdf_output'']
   \<and> fst (main (example_host (Exited 0 [] [])) (u ''/work/pdfify.py'') surrogate_world)
       = Inl (Exception (u ''UnicodeEncodeError''))
   \<and> console (snd (main (example_host (Exited 0 [] [])) (u ''/work/pdfify.py'') surrogate_world))
       = [u ''AbiWord is installed.'']"
  by (simp add: more_defs)

text \<open>
  When nothing raises, an entry that is not a directory, is not the script and has a
  supported extension is added to the converted files exactly when the dispatcher returned
  an output path that exists, and to the failed files otherwise; and in a run that reaches
  its end every name of the listing is at most once in the two lists together, and is in
  one of them exactly when it was such an entry at its turn.
\<close>

lemma entry_recorded_when_printed:
  assumes "\<not> isdir w (join current_dir file_name)"
      and "file_name \<noteq> basename script"
      and "lower (snd (splitext file_name)) \<in> set supported_extensions"
      and "convert_to_pdf h (join current_dir file_name) output_dir w = (Inr r, w1)"
      and "print_text h ((if \<exists>p. r = Some p \<and> exists w1 p
                          then [10003, 32] @ u ''Successfully converted: ''
                          else [10007, 32] @ u ''Failed to convert: '') @ file_name) w1
             = (Inr (), w2)"
  shows "process_entry h script current_dir output_dir file_name (converted, failed) w =
     (if \<exists>p. r = Some p \<and> exists w1 p
      then (Inr (converted @ [file_name], failed), w2)
      else (Inr (converted, failed @ [file_name]), w2))"
proof (cases r)
  case None
  with assms show ?thesis by (simp add: process_entry_def Let_def)
next
  case (Some p)
  with assms(4) have "p \<noteq> []"
    using convert_to_pdf_Some [of h "join current_dir file_name" output_dir w p w1] join_not_empty
    by simp
  with Some assms show ?thesis
    by (cases "exists w1 p") (simp_all add: process_entry_def Let_def)
qed

lemma process_entry_cases:
  assumes "process_entry h script cd od n (c, f) w = (Inr (c', f'), w')"
  shows "if \<not> isdir w (join cd n) \<and> n \<noteq> basename script
            \<and> lower (snd (splitext n)) \<in> set supported_extensions
         then (c' = c @ [n] \<and> f' = f) \<or> (c' = c \<and> f' = f @ [n])
         else c' = c \<and> f' = f \<and> w' = w"
  using assms
  by (auto simp: process_entry_def Let_def split: prod.splits if_splits option.splits sum.splits)

lemma scan_append:
  "scan h s cd od (xs @ ys) t w =
     (case scan h s cd od xs t w of
        (Inl e, w1) \<Rightarrow> (Inl e, w1)
      | (Inr t1, w1) \<Rightarrow> scan h s cd od ys t1 w1)"
  by (induction xs arbitrary: t w) (auto split: prod.splits sum.splits)

lemma scan_grow:
  assumes "scan h s cd od names (c, f) w = (Inr (c', f'), w')"
  shows "\<exists>a b. c' = c @ a \<and> f' = f @ b \<and> set (a @ b) \<subseteq> set names
           \<and> (distinct names \<longrightarrow> distinct (a @ b))"
  using assms
proof (induction names arbitrary: w c f)
  case Nil
  then show ?case by simp
next
  case (Cons n names)
  from Cons.prems obtain c1 f1 w1 where
    pe: "process_entry h s cd od n (c, f) w = (Inr (c1, f1), w1)" and
    sc: "scan h s cd od names (c1, f1) w1 = (Inr (c', f'), w')"
    by (auto split: prod.splits sum.splits)
  from Cons.IH [OF sc] obtain a b where
    ab: "c' = c1 @ a" "f' = f1 @ b" "set (a @ b) \<subseteq> set names"
        "distinct names \<longrightarrow> distinct (a @ b)"
    by blast
  from process_entry_cases [OF pe] consider
      "c1 = c @ [n]" "f1 = f" | "c1 = c" "f1 = f @ [n]" | "c1 = c" "f1 = f"
    by (auto split: if_splits)
  then show ?case
  proof cases
    case 1
    with ab show ?thesis
      by (intro exI [of _ "n # a"] exI [of _ b]) auto
  next
    case 2
    with ab show ?thesis
      by (intro exI [of _ a] exI [of _ "n # b"]) auto
  next
    case 3
    with ab show ?thesis
      by (intro exI [of _ a] exI [of _ b]) auto
  qed
qed

lemma scan_member:
  assumes "distinct (pre @ n # post)"
      and "scan h s cd od (pre @ n # post) ([], []) w = (Inr (c', f'), w')"
  shows "\<exists>t1 w1. scan h s cd od pre ([], []) w = (Inr t1, w1)
           \<and> (n \<in> set (c' @ f') \<longleftrightarrow>
                 (\<not> isdir w1 (join cd n) \<and> n \<noteq> basename s
                  \<and> lower (snd (splitext n)) \<in> set supported_extensions))"
proof -
  from assms(2) obtain c1 f1 w1 where p: "scan h s cd od pre ([], []) w = (Inr (c1, f1), w1)"
    and r0: "scan h s cd od (n # post) (c1, f1) w1 = (Inr (c', f'), w')"
    by (auto simp: scan_append split: prod.splits sum.splits)
  from r0 obtain c2 f2 w2 where q: "process_entry h s cd od n (c1, f1) w1 = (Inr (c2, f2), w2)"
    and r: "scan h s cd od post (c2, f2) w2 = (Inr (c', f'), w')"
    by (auto split: prod.splits sum.splits)
  from scan_grow [OF p] have 1: "set (c1 @ f1) \<subseteq> set pre" by auto
  from scan_grow [OF r] obtain a b where
    2: "c' = c2 @ a" "f' = f2 @ b" "set (a @ b) \<subseteq> set post"
    by blast
  from assms(1) have 3: "n \<notin> set pre" "n \<notin> set post" by auto
  from 1 2 3 have "n \<in> set (c' @ f') \<longleftrightarrow> n \<in> set (c2 @ f2)" by auto
  moreover from 1 3 have "n \<notin> set (c1 @ f1)" by auto
  ultimately have "n \<in> set (c' @ f') \<longleftrightarrow>
                 (\<not> isdir w1 (join cd n) \<and> n \<noteq> basename s
                  \<and> lower (snd (splitext n)) \<in> set supported_extensions)"
    using process_entry_cases [OF q] by (auto split: if_splits)
  with p show ?thesis by blast
qed

lemma listdir_distinct: "listdir w p = Inr names \<Longrightarrow> distinct names"
  by (auto simp: listdir_def split: sum.splits node.splits)

lemma summary_console:
  "console (summary c f w) =
     console w @
     [[], u ''=== Conversion Summary ==='',
      u ''Total files processed: '' @ str_nat (length c + length f),
      u ''Successfully converted: '' @ str_nat (length c),
      u ''Failed conversions: '' @ str_nat (length f)]
     @ (if c \<noteq> [] then [[], u ''Converted files can be found in the 'pdf_output' directory'']
        else [])"
  by (simp add: summary_def print_def Let_def)

lemma main_scan:
  assumes "main h script w = (Inr (converted, failed), w')"
  shows "\<exists>w2 w3 current_dir names.
       listdir w2 current_dir = Inr names
     \<and> scan h script current_dir (join current_dir (u ''pdf_output'')) names ([], []) w2
         = (Inr (converted, failed), w3)
     \<and> w' = summary converted failed w3"
  using assms
  by (auto simp: main_def Let_def split: sum.splits prod.splits if_splits)

lemma results_when_run_completes:
  assumes "main h script w = (Inr (converted, failed), w')"
  shows "\<exists>w2 w3 current_dir names.
       listdir w2 current_dir = Inr names
     \<and> scan h script current_dir (join current_dir (u ''pdf_output'')) names ([], []) w2
         = (Inr (converted, failed), w3)
     \<and> distinct (converted @ failed)
     \<and> set (converted @ failed) \<subseteq> set names
     \<and> (\<forall>pre n post. names = pre @ n # post \<longrightarrow>
          (\<exists>t1 w1. scan h script current_dir (join current_dir (u ''pdf_output'')) pre ([], []) w2
                      = (Inr t1, w1)
             \<and> (n \<in> set (converted @ failed) \<longleftrightarrow>
                  \<not> isdir w1 (join current_dir n) \<and> n \<noteq> basename script
                  \<and> lower (snd (splitext n)) \<in> set supported_extensions)))
     \<and> console w' =
         console w3 @
         [[], u ''=== Conversion Summary ==='',
          u ''Total files processed: '' @ str_nat (length converted + length failed),
          u ''Successfully converted: '' @ str_nat (length converted),
          u ''Failed conversions: '' @ str_nat (length failed)]
         @ (if converted \<noteq> []
            then [[], u ''Converted files can be found in the 'pdf_output' directory'']
            else [])"
proof -
  from main_scan [OF assms] obtain w2 w3 current_dir names where
    l: "listdir w2 current_dir = Inr names" and
    s: "scan h script current_dir (join current_dir (u ''pdf_output'')) names ([], []) w2
         = (Inr (converted, failed), w3)" and
    w': "w' = summary converted failed w3"
    by (elim exE conjE)
  have d: "distinct names" using l by (rule listdir_distinct)
  from scan_grow [OF s] d have g: "distinct (converted @ failed)"
    "set (converted @ failed) \<subseteq> set names"
    by auto
  have m: "\<forall>pre n post. names = pre @ n # post \<longrightarrow>
          (\<exists>t1 w1. scan h script current_dir (join current_dir (u ''pdf_output'')) pre ([], []) w2
                      = (Inr t1, w1)
             \<and> (n \<in> set (converted @ failed) \<longleftrightarrow>
                  \<not> isdir w1 (join current_dir n) \<and> n \<noteq> basename script
                  \<and> lower (snd (splitext n)) \<in> set supported_extensions))"
  proof (intro allI impI)
    fix pre n post
    assume e: "names = pre @ n # post"
    show "\<exists>t1 w1. scan h script current_dir (join current_dir (u ''pdf_output'')) pre ([], []) w2
                      = (Inr t1, w1)
             \<and> (n \<in> set (converted @ failed) \<longleftrightarrow>
                  \<not> isdir w1 (join current_dir n) \<and> n \<noteq> basename script
                  \<and> lower (snd (splitext n)) \<in> set supported_extensions)"
      using scan_member [of pre n post h script current_dir "join current_dir (u ''pdf_output'')"
                            w2 converted failed w3] d s
      unfolding e by blast
  qed
  have c: "console w' =
         console w3 @
         [[], u ''=== Conversion Summary ==='',
          u ''Total files processed: '' @ str_nat (length converted + length failed),
          u ''Successfully converted: '' @ str_nat (length converted),
          u ''Failed conversions: '' @ str_nat (length failed)]
         @ (if converted \<noteq> []
            then [[], u ''Converted files can be found in the 'pdf_output' directory'']
            else [])"
    unfolding w' by (rule summary_console)
  show ?thesis
    by (intro exI conjI) (rule l, rule s, rule g(1), rule g(2), rule m, rule c)
qed

section \<open>Two files with the same base name\<close>

text \<open>
  C10, as the claim states it, fails: \<open>a.txt\<close> is converted before \<open>a.docx\<close>; the
  external program ends with return code zero and writes nothing, both files are counted
  as converted, and \<open>a.pdf\<close> still holds the text of \<open>a.txt\<close>: the later conversion has
  not overwritten it.
\<close>

theorem same_stem_not_overwritten_counterexample:
  "fst (main (example_host (Exited 0 [] [])) (u ''/work/pdfify.py'') same_stem_world)
     = Inr ([u ''a.txt'', u ''a.docx''], [])
   \<and> read_file same_stem_world (u ''/work/a.txt'') = Inr (u ''one'')
   \<and> read_file (snd (main (example_host (Exited 0 [] [])) (u ''/work/pdfify.py'') same_stem_world))
        (u ''/work/pdf_output/a.pdf'')
       = Inr (pdf_encode (example_host (Exited 0 [] []))
           \<lparr>pdf_unit = u ''mm'', pdf_format = None, pdf_pages = 1,
            pdf_font = Some (u ''Arial'', 12), pdf_cells = [u ''one''], pdf_images = []\<rparr>)"
  by (simp add: more_defs)

text \<open>
  C10, amended: two entries with the same base name without extension get the same output
  path from the dispatcher; when the later one has a text or an image extension and the
  dispatcher returns the path for it, the file at that path holds the document of the later
  one, whatever the earlier conversion left there (for a document, the file at the path is
  what the external program left). Both can be counted as converted: in the sample
  directory \<open>notes.txt\<close> and \<open>notes.md\<close> are, and \<open>notes.pdf\<close> holds the text of
  \<open>notes.md\<close> only.
\<close>

theorem same_stem_same_output:
  "(sep \<notin> set n1 \<and> sep \<notin> set n2 \<and> fst (splitext n1) = fst (splitext n2)
      \<and> fst (convert_to_pdf h1 (join current_dir n1) output_dir w1) = Inr (Some p1)
      \<and> convert_to_pdf h2 (join current_dir n2) output_dir w2 = (Inr (Some p2), w2') \<longrightarrow>
      p1 = p2
      \<and> (lower (snd (splitext n2)) \<in> set [u ''.txt'', u ''.md'', u ''.csv''] \<longrightarrow>
           (\<exists>b. read_file w2 (join current_dir n2) = Inr b
              \<and> read_file w2' p2 =
                  Inr (pdf_encode h2
                         (write_lines (file_lines (universal_newlines (utf8_replace h2 b)))
                            (set_font (u ''Arial'') 12 (add_page (FPDF (u ''mm'') None)))))))
      \<and> (lower (snd (splitext n2))
            \<in> set [u ''.jpg'', u ''.jpeg'', u ''.png'', u ''.bmp'', u ''.gif''] \<longrightarrow>
           (\<exists>b img rgb jpg. read_file w2 (join current_dir n2) = Inr b
              \<and> image_open h2 b = Inr img
              \<and> (if img_mode img \<noteq> u ''RGB'' then image_convert h2 img (u ''RGB'') else Inr img)
                  = Inr rgb
              \<and> jpeg_encode h2 rgb = Inr jpg
              \<and> read_file w2' p2 =
                  Inr (pdf_encode h2
                    \<lparr>pdf_unit = u ''pt'', pdf_format = Some (img_size img), pdf_pages = 1,
                     pdf_font = None, pdf_cells = [],
                     pdf_images = [(jpg, 0, 0, fst (img_size img), snd (img_size img))]\<rparr>))))
   \<and> fst (main (example_host (Exited 0 [] [])) (u ''/work/pdfify.py'') example_world)
       = Inr ([u ''notes.txt'', u ''notes.md'', u ''photo.png''], [u ''wide.png'', u ''report.docx''])
   \<and> read_file (snd (main (example_host (Exited 0 [] [])) (u ''/work/pdfify.py'') example_world))
        (u ''/work/pdf_output/notes.pdf'')
       = Inr (pdf_encode (example_host (Exited 0 [] []))
           \<lparr>pdf_unit = u ''mm'', pdf_format = None, pdf_pages = 1,
            pdf_font = Some (u ''Arial'', 12), pdf_cells = [u ''yo''], pdf_images = []\<rparr>)"
proof (intro conjI impI)
  assume a: "sep \<notin> set n1 \<and> sep \<notin> set n2 \<and> fst (splitext n1) = fst (splitext n2)
      \<and> fst (convert_to_pdf h1 (join current_dir n1) output_dir w1) = Inr (Some p1)
      \<and> convert_to_pdf h2 (join current_dir n2) output_dir w2 = (Inr (Some p2), w2')"
  then have c1: "convert_to_pdf h1 (join current_dir n1) output_dir w1
                   = (Inr (Some p1), snd (convert_to_pdf h1 (join current_dir n1) output_dir w1))"
    by (intro prod_eqI) simp_all
  from a have c2: "convert_to_pdf h2 (join current_dir n2) output_dir w2 = (Inr (Some p2), w2')"
    by simp
  from a have b1: "basename (join current_dir n1) = n1" and b2: "basename (join current_dir n2) = n2"
    by (simp_all add: basename_join)
  from convert_to_pdf_Some [OF c1] b1
  have p1: "p1 = join output_dir (fst (splitext n1) @ u ''.pdf'')" by simp
  from convert_to_pdf_Some [OF c2] b2 obtain l where
    p2: "p2 = join output_dir (fst (splitext n2) @ u ''.pdf'')" and
    t: "lower (snd (splitext n2)) \<in> set [u ''.txt'', u ''.md'', u ''.csv'']
          \<longrightarrow> convert_txt_to_pdf h2 (join current_dir n2) p2 (print l w2) = (True, w2')" and
    i: "lower (snd (splitext n2)) \<in> set [u ''.jpg'', u ''.jpeg'', u ''.png'', u ''.bmp'', u ''.gif'']
          \<longrightarrow> convert_image_to_pdf h2 (join current_dir n2) p2 (print l w2) = (True, w2')"
    by auto
  from p1 p2 a show "p1 = p2" by simp
  have ne: "p2 \<noteq> []" unfolding p2 by (rule join_not_empty)
  {
    assume "lower (snd (splitext n2)) \<in> set [u ''.txt'', u ''.md'', u ''.csv'']"
    with t have "convert_txt_to_pdf h2 (join current_dir n2) p2 (print l w2) = (True, w2')" by blast
    from convert_txt_success [OF this ne]
    show "\<exists>b. read_file w2 (join current_dir n2) = Inr b
              \<and> read_file w2' p2 =
                  Inr (pdf_encode h2
                         (write_lines (file_lines (universal_newlines (utf8_replace h2 b)))
                            (set_font (u ''Arial'') 12 (add_page (FPDF (u ''mm'') None)))))"
      by (simp add: read_file_print)
  }
  {
    assume "lower (snd (splitext n2))
            \<in> set [u ''.jpg'', u ''.jpeg'', u ''.png'', u ''.bmp'', u ''.gif'']"
    with i have s: "convert_image_to_pdf h2 (join current_dir n2) p2 (print l w2) = (True, w2')"
      by blast
    have d: "p2 \<noteq> [] \<and> resolve (cwd (print l w2)) p2
               \<noteq> resolve (cwd (print l w2)) (join current_dir n2 @ u ''.temp.jpg'')"
      using ne unfolding p2 by (simp add: output_not_temp)
    from image_page_result [OF s] d
    show "\<exists>b img rgb jpg. read_file w2 (join current_dir n2) = Inr b
              \<and> image_open h2 b = Inr img
              \<and> (if img_mode img \<noteq> u ''RGB'' then image_convert h2 img (u ''RGB'') else Inr img)
                  = Inr rgb
              \<and> jpeg_encode h2 rgb = Inr jpg
              \<and> read_file w2' p2 =
                  Inr (pdf_encode h2
                    \<lparr>pdf_unit = u ''pt'', pdf_format = Some (img_size img), pdf_pages = 1,
                     pdf_font = None, pdf_cells = [],
                     pdf_images = [(jpg, 0, 0, fst (img_size img), snd (img_size img))]\<rparr>)"
      by (auto simp: read_file_print)
  }
next
  show "fst (main (example_host (Exited 0 [] [])) (u ''/work/pdfify.py'') example_world)
       = Inr ([u ''notes.txt'', u ''notes.md'', u ''photo.png''], [u ''wide.png'', u ''report.docx''])"
    by (simp add: more_defs)
  show "read_file (snd (main (example_host (Exited 0 [] [])) (u ''/work/pdfify.py'') example_world))
        (u ''/work/pdf_output/notes.pdf'')
       = Inr (pdf_encode (example_host (Exited 0 [] []))
           \<lparr>pdf_unit = u ''mm'', pdf_format = None, pdf_pages = 1,
            pdf_font = Some (u ''Arial'', 12), pdf_cells = [u ''yo''], pdf_images = []\<rparr>)"
    by (simp add: more_defs)
qed

theorem same_stem_same_output_witness:
  "\<exists>b. read_file
         (snd (convert_to_pdf (example_host (Exited 0 [] [])) (join (u ''/work'') (u ''notes.txt''))
                 (u ''/work/pdf_output'') example_world))
         (join (u ''/work'') (u ''notes.md'')) = Inr b
     \<and> read_file
         (snd (convert_to_pdf (example_host (Exited 0 [] [])) (join (u ''/work'') (u ''notes.md''))
                 (u ''/work/pdf_output'')
                 (snd (convert_to_pdf (example_host (Exited 0 [] []))
                         (join (u ''/work'') (u ''notes.txt'')) (u ''/work/pdf_output'')
                         example_world))))
         (u ''/work/pdf_output/notes.pdf'')
        = Inr (pdf_encode (example_host (Exited 0 [] []))
                 (write_lines
                    (file_lines (universal_newlines (utf8_replace (example_host (Exited 0 [] [])) b)))
                    (set_font (u ''Arial'') 12 (add_page (FPDF (u ''mm'') None)))))"
proof -
  let ?H = "example_host (Exited 0 [] [])"
  let ?X1 = "convert_to_pdf ?H (join (u ''/work'') (u ''notes.txt'')) (u ''/work/pdf_output'')
               example_world"
  let ?X2 = "convert_to_pdf ?H (join (u ''/work'') (u ''notes.md'')) (u ''/work/pdf_output'')
               (snd ?X1)"
  let ?P = "u ''/work/pdf_output/notes.pdf''"
  have s: "sep \<notin> set (u ''notes.txt'') \<and> sep \<notin> set (u ''notes.md'')
           \<and> fst (splitext (u ''notes.txt'')) = fst (splitext (u ''notes.md''))"
    by (simp add: more_defs)
  have f1: "fst ?X1 = Inr (Some ?P)"
    by (simp add: more_defs)
  have f2: "fst ?X2 = Inr (Some ?P)"
    by (simp add: more_defs)
  then have x2: "?X2 = (Inr (Some ?P), snd ?X2)"
    by (intro prod_eqI) simp_all
  have e: "lower (snd (splitext (u ''notes.md''))) \<in> set [u ''.txt'', u ''.md'', u ''.csv'']"
    by (simp add: more_defs)
  from s f1 x2 have hyp: "sep \<notin> set (u ''notes.txt'') \<and> sep \<notin> set (u ''notes.md'')
      \<and> fst (splitext (u ''notes.txt'')) = fst (splitext (u ''notes.md''))
      \<and> fst ?X1 = Inr (Some ?P) \<and> ?X2 = (Inr (Some ?P), snd ?X2)"
    by (intro conjI) (simp_all only: simp_thms)
  note T = same_stem_same_output [THEN conjunct1, rule_format, OF hyp]
  from T [THEN conjunct2, THEN conjunct1, rule_format, OF e] show ?thesis .
qed

end
